theory Spec2Isabelle
  imports Complex_Main
begin

section \<open>Ledger store\<close>

text \<open>
  The four tables the handlers read and write, one record per row with the columns the
  handlers touch. Monetary columns are Postgres \<open>numeric\<close> (exact), modelled as \<open>rat\<close>;
  text columns are strings, nullable ones options. A point in time is a number of
  milliseconds since the epoch (what a JavaScript \<open>Date\<close> holds), a \<open>DATE\<close> column is a
  number of days since the epoch.
\<close>

type_synonym timestamp = int
type_synonym date = int

record user_row =
  user_id :: string
  role :: string
  current_amount :: rat
  subscription_status :: "string option"
  subscription_expires_at :: "timestamp option"
  user_updated_at :: "timestamp option"

record donation_row =
  donation_id :: string
  creator_id :: string
  donation_amount :: rat
  donor_name :: "string option"
  donor_email :: "string option"
  message :: "string option"
  is_anonymous :: bool
  payment_status :: string
  txn_id :: string
  donation_payment_id :: string
  donation_updated_at :: "timestamp option"

record subscription_row =
  subscription_id :: string
  subscription_user_id :: string
  subscription_amount :: rat
  paid_until :: date
  is_active :: bool
  last_payment_txn_id :: string
  subscription_payment_id :: string
  subscription_state :: string
  subscription_updated_at :: "timestamp option"

record withdrawal_row =
  withdrawal_id :: string
  withdrawal_user_id :: string
  withdrawal_amount :: rat
  withdrawal_method :: string
  bank_name :: string
  bank_account_name :: string
  bank_account_number :: string
  withdrawal_status :: string
  processed_at :: "timestamp option"

record store =
  users :: "user_row list"
  donations :: "donation_row list"
  subscriptions :: "subscription_row list"
  withdrawals :: "withdrawal_row list"

text \<open>
  The query builder: \<open>.eq(...)\<close> filters, \<open>.single()\<close> yields the row when exactly one
  matches and no data otherwise, \<open>.update(...)\<close> rewrites every matching row.
\<close>

definition single :: "'a list \<Rightarrow> 'a option" where
  "single rows = (case rows of [r] \<Rightarrow> Some r | _ \<Rightarrow> None)"

definition update_where :: "('a \<Rightarrow> bool) \<Rightarrow> ('a \<Rightarrow> 'a) \<Rightarrow> 'a list \<Rightarrow> 'a list" where
  "update_where p f rows = map (\<lambda>r. if p r then f r else r) rows"

text \<open>
  A handler answers with an HTTP status and either an error body (message and, for the
  withdrawal handler, the available balance) or a success payload.
\<close>

datatype 'a response =
  Rejected nat string "rat option"
  | Accepted 'a

definition accepted :: "'a response \<Rightarrow> bool" where
  "accepted r = (case r of Accepted x \<Rightarrow> True | Rejected st msg bal \<Rightarrow> False)"

section \<open>Strings and transaction ids\<close>

definition startsWith :: "string \<Rightarrow> string \<Rightarrow> bool" where
  "startsWith s p = (take (length p) s = p)"

text \<open>\<open>s.substring(0, 8)\<close>.\<close>

definition substring_0_8 :: "string \<Rightarrow> string" where
  "substring_0_8 s = take 8 s"

text \<open>Decimal rendering of \<open>Date.now()\<close> inside a template literal.\<close>

definition digit_char :: "nat \<Rightarrow> char" where
  "digit_char n = ''0123456789'' ! n"

fun decimal :: "nat \<Rightarrow> string" where
  "decimal n = (if n < 10 then [digit_char n] else decimal (n div 10) @ [digit_char (n mod 10)])"

declare decimal.simps [simp del]

text \<open>
  \<open>Math.random().toString(36).substring(2, 8).toUpperCase()\<close>: the base-36 rendering of
  the random number is an input (lower-case digits and letters after \<open>0.\<close>); the
  handler drops two characters, keeps at most six and upper-cases them.
\<close>

definition toUpperCase_char :: "char \<Rightarrow> char" where
  "toUpperCase_char c =
     (case map_of (zip ''abcdefghijklmnopqrstuvwxyz'' ''ABCDEFGHIJKLMNOPQRSTUVWXYZ'') c of
        Some u \<Rightarrow> u
      | None \<Rightarrow> c)"

definition random_suffix :: "string \<Rightarrow> string" where
  "random_suffix r = map toUpperCase_char (take 6 (drop 2 r))"

text \<open>The four generators, one per intake handler.\<close>

definition donation_gateway_txn_id :: "string \<Rightarrow> nat \<Rightarrow> string" where
  "donation_gateway_txn_id cid t = ''DON_'' @ substring_0_8 cid @ ''_'' @ decimal t"

definition donation_simulated_txn_id :: "nat \<Rightarrow> string \<Rightarrow> string" where
  "donation_simulated_txn_id t r = ''TXN_'' @ decimal t @ ''_'' @ random_suffix r"

definition subscription_gateway_txn_id :: "string \<Rightarrow> nat \<Rightarrow> string" where
  "subscription_gateway_txn_id uid t = ''SUB_'' @ substring_0_8 uid @ ''_'' @ decimal t"

definition subscription_simulated_txn_id :: "nat \<Rightarrow> string \<Rightarrow> string" where
  "subscription_simulated_txn_id t r = ''SUB_'' @ decimal t @ ''_'' @ random_suffix r"

section \<open>JavaScript dates\<close>

text \<open>
  The handlers run with UTC as their local time zone, so \<open>getMonth\<close>/\<open>setMonth\<close> and
  \<open>toISOString\<close> see the same calendar day. The calendar conversions are those of the
  proleptic Gregorian calendar the language prescribes; months are numbered from 0 as in
  JavaScript.
\<close>

definition msPerDay :: int where
  "msPerDay = 86400000"

definition Day :: "timestamp \<Rightarrow> date" where
  "Day t = t div msPerDay"

definition TimeWithinDay :: "timestamp \<Rightarrow> int" where
  "TimeWithinDay t = t mod msPerDay"

text \<open>Year, month (0..11) and day of month (1..31) of a day number.\<close>

definition civil_from_days :: "date \<Rightarrow> int \<times> int \<times> int" where
  "civil_from_days z =
     (let z' = z + 719468;
          era = z' div 146097;
          doe = z' mod 146097;
          yoe = (doe - doe div 1460 + doe div 36524 - doe div 146096) div 365;
          doy = doe - (365 * yoe + yoe div 4 - yoe div 100);
          mp = (5 * doy + 2) div 153;
          d = doy - (153 * mp + 2) div 5 + 1;
          m = (if mp < 10 then mp + 2 else mp - 10);
          y = yoe + era * 400 + (if m \<le> 1 then 1 else 0)
      in (y, m, d))"

text \<open>Day number of the first of month \<open>m\<close> (0..11) of year \<open>y\<close>.\<close>

definition days_from_civil :: "int \<Rightarrow> int \<Rightarrow> date" where
  "days_from_civil y m =
     (let y' = (if m \<le> 1 then y - 1 else y);
          era = y' div 400;
          yoe = y' mod 400;
          doy = (153 * (if m > 1 then m - 2 else m + 10) + 2) div 5;
          doe = yoe * 365 + yoe div 4 - yoe div 100 + doy
      in era * 146097 + doe - 719468)"

text \<open>
  \<open>MakeDay(year, month, date)\<close>: the month may lie outside 0..11 and the day outside
  the month; both carry over.
\<close>

definition MakeDay :: "int \<Rightarrow> int \<Rightarrow> int \<Rightarrow> date" where
  "MakeDay y m d = days_from_civil (y + m div 12) (m mod 12) + d - 1"

definition MakeDate :: "date \<Rightarrow> int \<Rightarrow> timestamp" where
  "MakeDate day time = day * msPerDay + time"

definition getMonth :: "timestamp \<Rightarrow> int" where
  "getMonth t = (case civil_from_days (Day t) of (y, m, d) \<Rightarrow> m)"

text \<open>
  \<open>TimeClip\<close>: a time value further than 8.64e15 ms from the epoch is not a time; the
  \<open>Date\<close> then is invalid (here \<open>None\<close>), and \<open>toISOString\<close> of an invalid \<open>Date\<close>
  throws a RangeError.
\<close>

definition TimeClip :: "int \<Rightarrow> timestamp option" where
  "TimeClip t = (if \<bar>t\<bar> \<le> 8640000000000000 then Some t else None)"

definition setMonth :: "timestamp \<Rightarrow> int \<Rightarrow> timestamp option" where
  "setMonth t m =
     (case civil_from_days (Day t) of
        (y, m0, d) \<Rightarrow> TimeClip (MakeDate (MakeDay y m d) (TimeWithinDay t)))"

text \<open>\<open>new Date("YYYY-MM-DD")\<close>: midnight UTC of that day.\<close>

definition date_to_timestamp :: "date \<Rightarrow> timestamp" where
  "date_to_timestamp d = d * msPerDay"

text \<open>\<open>t.toISOString().split('T')[0]\<close>: the UTC calendar day of \<open>t\<close>.\<close>

definition iso_date :: "timestamp \<Rightarrow> date" where
  "iso_date t = Day t"

text \<open>The day number of a calendar date written year, month (1..12), day.\<close>

definition ymd :: "int \<Rightarrow> int \<Rightarrow> int \<Rightarrow> date" where
  "ymd y m d = MakeDay y (m - 1) d"

section \<open>Webhook reconciler\<close>

text \<open>
  \<open>rupantorpay-webhook/index.ts\<close>. The request body may fail to parse and the
  verification call may throw; both land in the \<open>catch\<close> block. The verification result
  carries a truthy-or-not \<open>status\<close> and a \<open>payment_status\<close>. An update the store rejects
  leaves the rows as they were; the handler logs the error in the completed branch and
  drops it in the failed branch, and answers 200 either way.
\<close>

record WebhookPayload =
  transaction_id :: string
  payload_status :: string
  payload_amount :: string

record verification =
  verification_status :: bool
  verification_payment_status :: string

record webhook_env =
  webhook_verification :: "verification option"
  webhook_now :: timestamp
  webhook_donation_update_ok :: bool
  webhook_subscription_update_ok :: bool

definition mark_donation :: "string \<Rightarrow> string \<Rightarrow> timestamp \<Rightarrow> store \<Rightarrow> store" where
  "mark_donation tid st now s =
     s\<lparr>donations := update_where (\<lambda>d. txn_id d = tid)
          (\<lambda>d. d\<lparr>payment_status := st, donation_updated_at := Some now\<rparr>) (donations s)\<rparr>"

definition mark_subscription :: "string \<Rightarrow> bool \<Rightarrow> timestamp \<Rightarrow> store \<Rightarrow> store" where
  "mark_subscription tid act now s =
     s\<lparr>subscriptions := update_where (\<lambda>r. last_payment_txn_id r = tid)
          (\<lambda>r. r\<lparr>is_active := act, subscription_updated_at := Some now\<rparr>) (subscriptions s)\<rparr>"

definition webhook :: "webhook_env \<Rightarrow> WebhookPayload option \<Rightarrow> store \<Rightarrow> unit response \<times> store" where
  "webhook env body s =
     (case body of
        None \<Rightarrow> (Rejected 500 ''Webhook processing failed'' None, s)
      | Some p \<Rightarrow>
        (case webhook_verification env of
           None \<Rightarrow> (Rejected 500 ''Webhook processing failed'' None, s)
         | Some v \<Rightarrow>
           (let tid = transaction_id p; now = webhook_now env in
            if verification_status v \<and> verification_payment_status v = ''completed'' then
              (let s1 = (if startsWith tid ''DON_'' \<and> webhook_donation_update_ok env
                         then mark_donation tid ''completed'' now s else s);
                   s2 = (if startsWith tid ''SUB_'' \<and> webhook_subscription_update_ok env
                         then mark_subscription tid True now s1 else s1)
               in (Accepted (), s2))
            else
              (let s1 = (if startsWith tid ''DON_'' \<and> webhook_donation_update_ok env
                         then mark_donation tid ''failed'' now s else s);
                   s2 = (if startsWith tid ''SUB_'' \<and> webhook_subscription_update_ok env
                         then mark_subscription tid False now s1 else s1)
               in (Accepted (), s2)))))"

section \<open>Access-time status evaluator\<close>

text \<open>
  \<open>UserProfile.tsx\<close>, \<open>fetchCreator\<close>: the page shows the creator as accepting
  donations when the subscription row was found, is active, and its \<open>paid_until\<close>
  (midnight of that day) is not before the current instant.
\<close>

definition isActive :: "subscription_row option \<Rightarrow> timestamp \<Rightarrow> bool" where
  "isActive subscription today =
     (case subscription of
        None \<Rightarrow> False
      | Some r \<Rightarrow> is_active r \<and> date_to_timestamp (paid_until r) \<ge> today)"

section \<open>Donation intake\<close>

text \<open>
  The two \<open>process-donation\<close> handlers of \<open>verify-payment/index.ts\<close>: the gateway
  variant (checkout call, row inserted as pending) and the simulated variant (row
  inserted as completed). A body that does not parse and a checkout call that throws or
  reports no \<open>status\<close> end in the \<open>catch\<close> block.

  The simulated variant goes on to credit the balance with
  \<open>update({ current_amount: supabaseService.sql`current_amount + ${amount}`, ... })\<close>.
  The client made by \<open>createClient\<close> of supabase-js 2.45.0 has no member \<open>sql\<close>, so
  building the argument of \<open>update\<close> calls \<open>undefined\<close> as a template tag and throws a
  TypeError: the update is never sent, the \<open>catch\<close> block answers 500, and the row
  inserted just before stays. The success response after it is not reached.
\<close>

record DonationRequest =
  request_creator_id :: string
  request_amount :: rat
  request_donor_name :: "string option"
  request_donor_email :: "string option"
  request_message :: "string option"
  request_is_anonymous :: bool

record checkout_result =
  checkout_status :: bool
  checkout_payment_id :: "string option"
  checkout_payment_url :: "string option"

record donation_env =
  donation_now :: timestamp
  donation_txn_time :: nat
  donation_random :: string
  donation_checkout :: "checkout_result option"
  donation_new_id :: string
  donation_insert_ok :: bool

record donation_result =
  result_txn_id :: string
  result_donation_id :: string
  result_payment_url :: "string option"

text \<open>\<open>!creator_id || !amount || amount < 10\<close>.\<close>

definition invalid_donation :: "DonationRequest \<Rightarrow> bool" where
  "invalid_donation r =
     (request_creator_id r = [] \<or> request_amount r = 0 \<or> request_amount r < 10)"

definition find_creator :: "store \<Rightarrow> string \<Rightarrow> user_row option" where
  "find_creator s cid =
     single (filter (\<lambda>u. user_id u = cid \<and> role u = ''creator'') (users s))"

definition find_subscription :: "store \<Rightarrow> string \<Rightarrow> subscription_row option" where
  "find_subscription s uid =
     single (filter (\<lambda>r. subscription_user_id r = uid) (subscriptions s))"

text \<open>
  \<open>!subscription || !subscription.is_active || new Date(subscription.paid_until) < new Date()\<close>.
\<close>

definition subscription_not_active :: "subscription_row option \<Rightarrow> timestamp \<Rightarrow> bool" where
  "subscription_not_active subscription now =
     (case subscription of
        None \<Rightarrow> True
      | Some r \<Rightarrow> \<not> is_active r \<or> date_to_timestamp (paid_until r) < now)"

text \<open>\<open>result.payment_id || fallback\<close>: a missing or empty id gives the fallback.\<close>

definition payment_id_or :: "string option \<Rightarrow> string \<Rightarrow> string" where
  "payment_id_or pid fallback =
     (case pid of None \<Rightarrow> fallback | Some x \<Rightarrow> if x = [] then fallback else x)"

definition new_donation ::
  "DonationRequest \<Rightarrow> string \<Rightarrow> string \<Rightarrow> string \<Rightarrow> string \<Rightarrow> donation_row" where
  "new_donation r row_id st txn pid =
     \<lparr>donation_id = row_id,
      creator_id = request_creator_id r,
      donation_amount = request_amount r,
      donor_name = (if request_is_anonymous r then None else request_donor_name r),
      donor_email = (if request_is_anonymous r then None else request_donor_email r),
      message = request_message r,
      is_anonymous = request_is_anonymous r,
      payment_status = st,
      txn_id = txn,
      donation_payment_id = pid,
      donation_updated_at = None\<rparr>"

definition process_donation_gateway ::
  "donation_env \<Rightarrow> DonationRequest option \<Rightarrow> store \<Rightarrow> donation_result response \<times> store" where
  "process_donation_gateway env body s =
     (case body of
        None \<Rightarrow> (Rejected 500 ''Internal server error'' None, s)
      | Some r \<Rightarrow>
        if invalid_donation r
        then (Rejected 400 ''Invalid donation data. Minimum amount is 10 BDT.'' None, s)
        else
          (case find_creator s (request_creator_id r) of
             None \<Rightarrow> (Rejected 404 ''Creator not found'' None, s)
           | Some creator \<Rightarrow>
             if subscription_not_active (find_subscription s (request_creator_id r))
                  (donation_now env)
             then (Rejected 400 ''Creator's subscription is not active'' None, s)
             else
               (let txnId = donation_gateway_txn_id (request_creator_id r) (donation_txn_time env)
                in case donation_checkout env of
                     None \<Rightarrow> (Rejected 500 ''Internal server error'' None, s)
                   | Some c \<Rightarrow>
                     if \<not> checkout_status c
                     then (Rejected 500 ''Internal server error'' None, s)
                     else if \<not> donation_insert_ok env
                     then (Rejected 500 ''Failed to process donation'' None, s)
                     else
                       (Accepted \<lparr>result_txn_id = txnId,
                                  result_donation_id = donation_new_id env,
                                  result_payment_url = checkout_payment_url c\<rparr>,
                        s\<lparr>donations := donations s @
                            [new_donation r (donation_new_id env) ''pending'' txnId
                               (payment_id_or (checkout_payment_id c) (''rupantorpay_'' @ txnId))]\<rparr>))))"

definition process_donation_simulated ::
  "donation_env \<Rightarrow> DonationRequest option \<Rightarrow> store \<Rightarrow> donation_result response \<times> store" where
  "process_donation_simulated env body s =
     (case body of
        None \<Rightarrow> (Rejected 500 ''Internal server error'' None, s)
      | Some r \<Rightarrow>
        if invalid_donation r
        then (Rejected 400 ''Invalid donation data. Minimum amount is 10 BDT.'' None, s)
        else
          (case find_creator s (request_creator_id r) of
             None \<Rightarrow> (Rejected 404 ''Creator not found'' None, s)
           | Some creator \<Rightarrow>
             if subscription_not_active (find_subscription s (request_creator_id r))
                  (donation_now env)
             then (Rejected 400 ''Creator's subscription is not active'' None, s)
             else
               (let txnId = donation_simulated_txn_id (donation_txn_time env) (donation_random env)
                in if \<not> donation_insert_ok env
                   then (Rejected 500 ''Failed to process donation'' None, s)
                   else
                     (let s1 = s\<lparr>donations := donations s @
                                  [new_donation r (donation_new_id env) ''completed'' txnId
                                     (''dummy_payment_'' @ txnId)]\<rparr>
                      in (Rejected 500 ''Internal server error'' None, s1)))))"

section \<open>Subscription intake\<close>

text \<open>
  The two \<open>create-subscription\<close> handlers: the gateway variant (row left inactive until
  the webhook) and the simulated variant (row active at once). The caller comes from the
  bearer token: a request without the header throws, a token that names no user is
  answered 401. \<open>duration_months\<close> defaults to 1 and is a whole number of months. The
  clock reading \<open>new Date()\<close> is a valid time. A date the months take out of the range of
  \<open>Date\<close> makes \<open>toISOString\<close> throw while the row to write is built, which ends in the
  \<open>catch\<close> block before the write is sent.
\<close>

datatype caller = MissingAuthorization | Unauthenticated | Authenticated string

record SubscriptionRequest =
  duration_months :: "int option"

record subscription_env =
  subscription_txn_time :: nat
  subscription_random :: string
  subscription_checkout :: "checkout_result option"
  subscription_today :: timestamp
  subscription_new_id :: string
  subscription_write_ok :: bool
  subscription_write_time :: timestamp
  subscription_user_update_ok :: bool

record subscription_result =
  subscription_result_txn_id :: string
  subscription_result_id :: string
  subscription_result_amount :: rat
  subscription_result_payment_url :: "string option"
  subscription_result_paid_until :: "date option"

text \<open>\<open>const { duration_months = 1 } = await req.json()\<close>.\<close>

definition requested_months :: "SubscriptionRequest \<Rightarrow> int" where
  "requested_months r = (case duration_months r of None \<Rightarrow> 1 | Some k \<Rightarrow> k)"

definition find_user :: "store \<Rightarrow> string \<Rightarrow> user_row option" where
  "find_user s uid = single (filter (\<lambda>u. user_id u = uid) (users s))"

text \<open>\<open>d = new Date(t); d.setMonth(d.getMonth() + n)\<close>.\<close>

definition add_months :: "timestamp \<Rightarrow> int \<Rightarrow> timestamp option" where
  "add_months t n = setMonth t (getMonth t + n)"

text \<open>
  \<open>extendFrom = currentPaidUntil > today ? currentPaidUntil : today\<close>, then
  \<open>newPaidUntil = extendFrom\<close> plus the months.
\<close>

definition newPaidUntil :: "subscription_row \<Rightarrow> timestamp \<Rightarrow> int \<Rightarrow> timestamp option" where
  "newPaidUntil existing today n =
     (let currentPaidUntil = date_to_timestamp (paid_until existing);
          extendFrom = (if currentPaidUntil > today then currentPaidUntil else today)
      in add_months extendFrom n)"

definition mirror_subscription :: "string \<Rightarrow> timestamp \<Rightarrow> timestamp \<Rightarrow> store \<Rightarrow> store" where
  "mirror_subscription uid paidUntil now s =
     s\<lparr>users := update_where (\<lambda>u. user_id u = uid)
          (\<lambda>u. u\<lparr>subscription_status := Some ''active'',
                  subscription_expires_at := Some paidUntil,
                  user_updated_at := Some now\<rparr>)
          (users s)\<rparr>"

text \<open>
  The upsert shared by both variants, which differ in the flag, the payment id and the
  status of a fresh row. Building the row throws when its date is invalid; the write
  reports an error (a store error, or an update that did not return exactly one row);
  or the row is written and returned.
\<close>

datatype upsert_outcome =
  Thrown
  | WriteError store
  | Written subscription_row store

definition upsert_subscription ::
  "subscription_env \<Rightarrow> string \<Rightarrow> int \<Rightarrow> string \<Rightarrow> bool \<Rightarrow> string \<Rightarrow> string \<Rightarrow> store
     \<Rightarrow> upsert_outcome" where
  "upsert_subscription env uid n txnId act pid fresh_state s =
     (let today = subscription_today env;
          paidUntil = add_months today n
      in case find_subscription s uid of
           Some existing \<Rightarrow>
             (case newPaidUntil existing today n of
                None \<Rightarrow> Thrown
              | Some extended \<Rightarrow>
                if \<not> subscription_write_ok env then WriteError s
                else
                  (let rows = update_where (\<lambda>r. subscription_id r = subscription_id existing)
                         (\<lambda>r. r\<lparr>paid_until := iso_date extended,
                                 is_active := act,
                                 last_payment_txn_id := txnId,
                                 subscription_payment_id := pid,
                                 subscription_updated_at := Some (subscription_write_time env)\<rparr>)
                         (subscriptions s)
                   in case single (filter (\<lambda>r. subscription_id r = subscription_id existing) rows) of
                        None \<Rightarrow> WriteError (s\<lparr>subscriptions := rows\<rparr>)
                      | Some row \<Rightarrow> Written row (s\<lparr>subscriptions := rows\<rparr>)))
         | None \<Rightarrow>
             (case paidUntil of
                None \<Rightarrow> Thrown
              | Some until \<Rightarrow>
                if \<not> subscription_write_ok env then WriteError s
                else
                  (let row = \<lparr>subscription_id = subscription_new_id env,
                              subscription_user_id = uid,
                              subscription_amount = 100 * of_int n,
                              paid_until = iso_date until,
                              is_active = act,
                              last_payment_txn_id = txnId,
                              subscription_payment_id = pid,
                              subscription_state = fresh_state,
                              subscription_updated_at = None\<rparr>
                   in Written row (s\<lparr>subscriptions := subscriptions s @ [row]\<rparr>))))"

text \<open>
  After the row is written both variants build the update of the User row, which takes
  \<open>paidUntil.toISOString()\<close> and so throws when today plus the months is no valid date.
\<close>

definition create_subscription_gateway ::
  "subscription_env \<Rightarrow> caller \<Rightarrow> SubscriptionRequest option \<Rightarrow> store
     \<Rightarrow> subscription_result response \<times> store" where
  "create_subscription_gateway env who body s =
     (case who of
        MissingAuthorization \<Rightarrow> (Rejected 500 ''Internal server error'' None, s)
      | Unauthenticated \<Rightarrow> (Rejected 401 ''User not authenticated'' None, s)
      | Authenticated uid \<Rightarrow>
        (case body of
           None \<Rightarrow> (Rejected 500 ''Internal server error'' None, s)
         | Some r \<Rightarrow>
           (let n = requested_months r in
            case find_user s uid of
              None \<Rightarrow> (Rejected 400 ''Only creators can purchase subscriptions'' None, s)
            | Some userProfile \<Rightarrow>
              if role userProfile \<noteq> ''creator''
              then (Rejected 400 ''Only creators can purchase subscriptions'' None, s)
              else
                (let txnId = subscription_gateway_txn_id uid (subscription_txn_time env);
                     subscriptionAmount = 100 * of_int n
                 in case subscription_checkout env of
                      None \<Rightarrow> (Rejected 500 ''Internal server error'' None, s)
                    | Some c \<Rightarrow>
                      if \<not> checkout_status c
                      then (Rejected 500 ''Internal server error'' None, s)
                      else
                        (case upsert_subscription env uid n txnId False
                                (payment_id_or (checkout_payment_id c) (''rupantorpay_'' @ txnId))
                                ''pending'' s of
                           Thrown \<Rightarrow> (Rejected 500 ''Internal server error'' None, s)
                         | WriteError s1 \<Rightarrow>
                             (Rejected 500 ''Failed to process subscription'' None, s1)
                         | Written row s1 \<Rightarrow>
                             (case add_months (subscription_today env) n of
                                None \<Rightarrow> (Rejected 500 ''Internal server error'' None, s1)
                              | Some paidUntil \<Rightarrow>
                                (let s2 = (if subscription_user_update_ok env
                                           then mirror_subscription uid paidUntil
                                                  (subscription_write_time env) s1
                                           else s1)
                                 in (Accepted
                                       \<lparr>subscription_result_txn_id = txnId,
                                        subscription_result_id = subscription_id row,
                                        subscription_result_amount = subscriptionAmount,
                                        subscription_result_payment_url = checkout_payment_url c,
                                        subscription_result_paid_until = None\<rparr>, s2))))))))"

definition create_subscription_simulated ::
  "subscription_env \<Rightarrow> caller \<Rightarrow> SubscriptionRequest option \<Rightarrow> store
     \<Rightarrow> subscription_result response \<times> store" where
  "create_subscription_simulated env who body s =
     (case who of
        MissingAuthorization \<Rightarrow> (Rejected 500 ''Internal server error'' None, s)
      | Unauthenticated \<Rightarrow> (Rejected 401 ''User not authenticated'' None, s)
      | Authenticated uid \<Rightarrow>
        (case body of
           None \<Rightarrow> (Rejected 500 ''Internal server error'' None, s)
         | Some r \<Rightarrow>
           (let n = requested_months r in
            case find_user s uid of
              None \<Rightarrow> (Rejected 400 ''Only creators can purchase subscriptions'' None, s)
            | Some userProfile \<Rightarrow>
              if role userProfile \<noteq> ''creator''
              then (Rejected 400 ''Only creators can purchase subscriptions'' None, s)
              else
                (let txnId = subscription_simulated_txn_id (subscription_txn_time env)
                               (subscription_random env);
                     subscriptionAmount = 100 * of_int n
                 in case upsert_subscription env uid n txnId True
                           (''dummy_payment_'' @ txnId) ''active'' s of
                      Thrown \<Rightarrow> (Rejected 500 ''Internal server error'' None, s)
                    | WriteError s1 \<Rightarrow>
                        (Rejected 500 ''Failed to process subscription'' None, s1)
                    | Written row s1 \<Rightarrow>
                        (case add_months (subscription_today env) n of
                           None \<Rightarrow> (Rejected 500 ''Internal server error'' None, s1)
                         | Some paidUntil \<Rightarrow>
                           (let s2 = (if subscription_user_update_ok env
                                      then mirror_subscription uid paidUntil
                                             (subscription_write_time env) s1
                                      else s1)
                            in (Accepted
                                  \<lparr>subscription_result_txn_id = txnId,
                                   subscription_result_id = subscription_id row,
                                   subscription_result_amount = subscriptionAmount,
                                   subscription_result_payment_url = None,
                                   subscription_result_paid_until = Some (iso_date paidUntil)\<rparr>,
                                s2)))))))"

section \<open>Withdrawal intake\<close>

text \<open>
  The \<open>request-withdrawal\<close> handler (second document of \<open>Landing.tsx\<close>). After the
  insert of the pending row the handler goes on to hold the amount with
  \<open>update({ current_amount: supabaseService.sql`current_amount - ${amount}`, ... })\<close>.
  The client made by \<open>createClient\<close> of supabase-js 2.45.0 has no member \<open>sql\<close>, so
  building the argument of \<open>update\<close> calls \<open>undefined\<close> as a template tag and throws a
  TypeError: the update is never sent, the \<open>catch\<close> block answers 500, and the row
  inserted just before stays. The check of the update's error, the compensating delete
  and the success response after it are not reached.
\<close>

record WithdrawalRequest =
  request_withdrawal_amount :: rat
  request_method :: string
  request_bank_name :: string
  request_bank_account_name :: string
  request_bank_account_number :: string

record withdrawal_env =
  withdrawal_new_id :: string
  withdrawal_insert_ok :: bool

definition request_withdrawal ::
  "withdrawal_env \<Rightarrow> caller \<Rightarrow> WithdrawalRequest option \<Rightarrow> store \<Rightarrow> string response \<times> store" where
  "request_withdrawal env who body s =
     (case who of
        MissingAuthorization \<Rightarrow> (Rejected 500 ''Internal server error'' None, s)
      | Unauthenticated \<Rightarrow> (Rejected 401 ''User not authenticated'' None, s)
      | Authenticated uid \<Rightarrow>
        (case body of
           None \<Rightarrow> (Rejected 500 ''Internal server error'' None, s)
         | Some r \<Rightarrow>
           (let amount = request_withdrawal_amount r in
            if amount = 0 \<or> amount \<le> 0
            then (Rejected 400 ''Invalid withdrawal amount'' None, s)
            else
              (case find_user s uid of
                 None \<Rightarrow> (Rejected 400 ''Only creators can request withdrawals'' None, s)
               | Some userProfile \<Rightarrow>
                 if role userProfile \<noteq> ''creator''
                 then (Rejected 400 ''Only creators can request withdrawals'' None, s)
                 else if current_amount userProfile < amount
                 then (Rejected 400 ''Insufficient balance'' (Some (current_amount userProfile)), s)
                 else if \<not> withdrawal_insert_ok env
                 then (Rejected 500 ''Failed to create withdrawal request'' None, s)
                 else
                   (let withdrawal = \<lparr>withdrawal_id = withdrawal_new_id env,
                                      withdrawal_user_id = uid,
                                      withdrawal_amount = amount,
                                      withdrawal_method = request_method r,
                                      bank_name = request_bank_name r,
                                      bank_account_name = request_bank_account_name r,
                                      bank_account_number = request_bank_account_number r,
                                      withdrawal_status = ''pending'',
                                      processed_at = None\<rparr>;
                        s1 = s\<lparr>withdrawals := withdrawals s @ [withdrawal]\<rparr>
                    in (Rejected 500 ''Internal server error'' None, s1))))))"

section \<open>Administrator action\<close>

text \<open>
  \<open>AdminDashboard.tsx\<close>, \<open>handleWithdrawal\<close>: one update of the withdrawal with the
  given id. The result tells whether the success toast is shown; a store error is thrown
  and caught, leaving the store as it was.
\<close>

datatype action = approve | reject

definition handleWithdrawal :: "bool \<Rightarrow> timestamp \<Rightarrow> string \<Rightarrow> action \<Rightarrow> store \<Rightarrow> bool \<times> store" where
  "handleWithdrawal update_ok now withdrawalId act s =
     (if update_ok
      then (True,
            s\<lparr>withdrawals := update_where (\<lambda>w. withdrawal_id w = withdrawalId)
                 (\<lambda>w. w\<lparr>withdrawal_status := (if act = approve then ''approved'' else ''rejected''),
                         processed_at := Some now\<rparr>)
                 (withdrawals s)\<rparr>)
      else (False, s))"

section \<open>Notions used to state the properties\<close>

text \<open>
  Adding months to a calendar day, as the specification words it: the day number of the
  same day of month, the given number of months later, with the carry \<open>MakeDay\<close>
  prescribes when that day does not exist (31 January plus one month is 3 March, or
  2 March in a leap year).
\<close>

definition date_add_months :: "date \<Rightarrow> int \<Rightarrow> date" where
  "date_add_months d n = (case civil_from_days d of (y, m, dd) \<Rightarrow> MakeDay y (m + n) dd)"

text \<open>
  The extension rule in the specification's words, on calendar days: with no row for the
  user, today plus the months; with one row, the later of its \<open>paid_until\<close> and today,
  plus the months. (The rule speaks of at most one row per user.)
\<close>

definition expected_paid_until :: "store \<Rightarrow> string \<Rightarrow> date \<Rightarrow> int \<Rightarrow> date option" where
  "expected_paid_until s uid today n =
     (case filter (\<lambda>r. subscription_user_id r = uid) (subscriptions s) of
        [] \<Rightarrow> Some (date_add_months today n)
      | [existing] \<Rightarrow> Some (date_add_months (max (paid_until existing) today) n)
      | _ \<Rightarrow> None)"

text \<open>Rows compared up to the columns an operation is meant to stamp.\<close>

definition forget_donation_stamp :: "donation_row \<Rightarrow> donation_row" where
  "forget_donation_stamp d = d\<lparr>donation_updated_at := None\<rparr>"

definition forget_subscription_stamp :: "subscription_row \<Rightarrow> subscription_row" where
  "forget_subscription_stamp r = r\<lparr>subscription_updated_at := None\<rparr>"

definition forget_decision :: "withdrawal_row \<Rightarrow> withdrawal_row" where
  "forget_decision w = w\<lparr>withdrawal_status := [], processed_at := None\<rparr>"

section \<open>Example inputs\<close>

definition example_user :: "rat \<Rightarrow> user_row" where
  "example_user balance =
     \<lparr>user_id = ''creator-1'', role = ''creator'', current_amount = balance,
      subscription_status = None, subscription_expires_at = None, user_updated_at = None\<rparr>"

definition example_donation :: donation_row where
  "example_donation =
     \<lparr>donation_id = ''d1'', creator_id = ''creator-1'', donation_amount = 50,
      donor_name = None, donor_email = None, message = None, is_anonymous = True,
      payment_status = ''pending'', txn_id = ''DON_creator-_1700000000000'',
      donation_payment_id = ''p1'', donation_updated_at = None\<rparr>"

definition example_subscription :: "date \<Rightarrow> bool \<Rightarrow> subscription_row" where
  "example_subscription until act =
     \<lparr>subscription_id = ''s1'', subscription_user_id = ''creator-1'', subscription_amount = 100,
      paid_until = until, is_active = act, last_payment_txn_id = ''SUB_creator-_1690000000000'',
      subscription_payment_id = ''p2'', subscription_state = ''pending'',
      subscription_updated_at = None\<rparr>"

definition example_withdrawal :: withdrawal_row where
  "example_withdrawal =
     \<lparr>withdrawal_id = ''w1'', withdrawal_user_id = ''creator-1'', withdrawal_amount = 40,
      withdrawal_method = ''bkash'', bank_name = ''bKash'', bank_account_name = ''A Creator'',
      bank_account_number = ''01700000000'', withdrawal_status = ''pending'',
      processed_at = None\<rparr>"

definition example_store :: "rat \<Rightarrow> date \<Rightarrow> bool \<Rightarrow> store" where
  "example_store balance until act =
     \<lparr>users = [example_user balance], donations = [example_donation],
      subscriptions = [example_subscription until act], withdrawals = [example_withdrawal]\<rparr>"

text \<open>The same store before the creator has bought any subscription.\<close>

definition example_store_unsubscribed :: "rat \<Rightarrow> store" where
  "example_store_unsubscribed balance =
     \<lparr>users = [example_user balance], donations = [example_donation],
      subscriptions = [], withdrawals = [example_withdrawal]\<rparr>"

definition example_webhook_env :: "string \<Rightarrow> timestamp \<Rightarrow> webhook_env" where
  "example_webhook_env verified now =
     \<lparr>webhook_verification =
        Some \<lparr>verification_status = True, verification_payment_status = verified\<rparr>,
      webhook_now = now, webhook_donation_update_ok = True,
      webhook_subscription_update_ok = True\<rparr>"

definition example_payload :: "string \<Rightarrow> WebhookPayload" where
  "example_payload tid =
     \<lparr>transaction_id = tid, payload_status = ''COMPLETED'', payload_amount = ''50''\<rparr>"

definition example_withdrawal_request :: "rat \<Rightarrow> WithdrawalRequest" where
  "example_withdrawal_request amount =
     \<lparr>request_withdrawal_amount = amount, request_method = ''bkash'',
      request_bank_name = ''bKash'', request_bank_account_name = ''A Creator'',
      request_bank_account_number = ''01700000000''\<rparr>"

definition example_withdrawal_env :: withdrawal_env where
  "example_withdrawal_env = \<lparr>withdrawal_new_id = ''w2'', withdrawal_insert_ok = True\<rparr>"

definition example_checkout :: checkout_result where
  "example_checkout =
     \<lparr>checkout_status = True, checkout_payment_id = Some ''pay_1'',
      checkout_payment_url = Some ''https://payment.rupantorpay.com/checkout/pay_1''\<rparr>"

definition example_subscription_env :: "timestamp \<Rightarrow> subscription_env" where
  "example_subscription_env today =
     \<lparr>subscription_txn_time = 1700000000000, subscription_random = ''0.k3j9x2abc'',
      subscription_checkout = Some example_checkout, subscription_today = today,
      subscription_new_id = ''s2'', subscription_write_ok = True,
      subscription_write_time = today, subscription_user_update_ok = True\<rparr>"

definition example_donation_request :: "rat \<Rightarrow> DonationRequest" where
  "example_donation_request amount =
     \<lparr>request_creator_id = ''creator-1'', request_amount = amount,
      request_donor_name = Some ''A Donor'', request_donor_email = None,
      request_message = None, request_is_anonymous = False\<rparr>"

definition example_donation_env :: "timestamp \<Rightarrow> donation_env" where
  "example_donation_env now =
     \<lparr>donation_now = now, donation_txn_time = 1700000000000,
      donation_random = ''0.k3j9x2abc'', donation_checkout = Some example_checkout,
      donation_new_id = ''d2'', donation_insert_ok = True\<rparr>"

section \<open>Basic facts about the query builder\<close>

lemma single_Some_iff: "single rows = Some r \<longleftrightarrow> rows = [r]"
  by (auto simp: single_def split: list.splits)

lemma single_map: "single (map f rows) = map_option f (single rows)"
  by (cases rows rule: list.exhaust; cases "tl rows") (auto simp: single_def split: list.splits)

lemma filter_update_where:
  "(\<And>r. p (f r) = p r) \<Longrightarrow> filter p (update_where p f rows) = map f (filter p rows)"
  by (induction rows) (auto simp: update_where_def)

lemma filter_update_where_other:
  "(\<And>r. q r \<Longrightarrow> \<not> p r) \<Longrightarrow> (\<And>r. q (f r) = q r) \<Longrightarrow>
   filter q (update_where p f rows) = filter q rows"
  by (induction rows) (auto simp: update_where_def)

lemma startsWith_SUB_not_DON: "startsWith s ''SUB_'' \<Longrightarrow> \<not> startsWith s ''DON_''"
  by (auto simp: startsWith_def)

section \<open>Webhook reconciler\<close>

lemma mark_donation_frame [simp]:
  "users (mark_donation tid st now s) = users s"
  "subscriptions (mark_donation tid st now s) = subscriptions s"
  "withdrawals (mark_donation tid st now s) = withdrawals s"
  by (simp_all add: mark_donation_def)

lemma mark_subscription_frame [simp]:
  "users (mark_subscription tid a now s) = users s"
  "donations (mark_subscription tid a now s) = donations s"
  "withdrawals (mark_subscription tid a now s) = withdrawals s"
  by (simp_all add: mark_subscription_def)

lemma webhook_users: "users (snd (webhook env body s)) = users s"
  by (simp add: webhook_def Let_def split: option.splits)

lemma webhook_withdrawals: "withdrawals (snd (webhook env body s)) = withdrawals s"
  by (simp add: webhook_def Let_def split: option.splits)

lemma mark_donation_twice:
  "map forget_donation_stamp (donations (mark_donation tid st t2 (mark_donation tid st t1 s)))
     = map forget_donation_stamp (donations (mark_donation tid st t1 s))"
  by (simp add: mark_donation_def update_where_def forget_donation_stamp_def)

lemma mark_subscription_twice:
  "map forget_subscription_stamp
       (subscriptions (mark_subscription tid a t2 (mark_subscription tid a t1 s)))
     = map forget_subscription_stamp (subscriptions (mark_subscription tid a t1 s))"
  by (simp add: mark_subscription_def update_where_def forget_subscription_stamp_def)

text \<open>
  C1. The claim: when the reconciler verifies a gateway donation as completed, the
  creator's \<open>current_amount\<close> is credited by the donation amount. The handler run on a
  store holding one pending donation of 50 to a creator whose balance is 75, with a
  verification that reports \<open>completed\<close>: the donation becomes completed and the balance
  is still 75.
\<close>

theorem webhook_completed_donation_not_credited:
  "map payment_status (donations (snd (webhook (example_webhook_env ''completed'' 1700000060000)
       (Some (example_payload ''DON_creator-_1700000000000'')) (example_store 75 20000 True))))
     = [''completed''] \<and>
   map donation_amount (donations (example_store 75 20000 True)) = [50] \<and>
   map current_amount (users (snd (webhook (example_webhook_env ''completed'' 1700000060000)
       (Some (example_payload ''DON_creator-_1700000000000'')) (example_store 75 20000 True))))
     = [75]"
  by (simp add: webhook_def example_webhook_env_def example_payload_def example_store_def
      example_donation_def example_user_def mark_donation_def update_where_def
      startsWith_def Let_def)

lemma mark_donation_absorb:
  "mark_donation tid st t2 (mark_donation tid st t1 s) = mark_donation tid st t2 s"
  by (simp add: mark_donation_def update_where_def)

lemma mark_subscription_absorb:
  "mark_subscription tid a t2 (mark_subscription tid a t1 s) = mark_subscription tid a t2 s"
  by (simp add: mark_subscription_def update_where_def)

lemma mark_donation_others:
  "filter (\<lambda>d. txn_id d \<noteq> tid) (donations (mark_donation tid st now s))
     = filter (\<lambda>d. txn_id d \<noteq> tid) (donations s)"
  by (simp add: mark_donation_def filter_update_where_other)

lemma mark_subscription_others:
  "filter (\<lambda>r. last_payment_txn_id r \<noteq> tid) (subscriptions (mark_subscription tid a now s))
     = filter (\<lambda>r. last_payment_txn_id r \<noteq> tid) (subscriptions s)"
  by (simp add: mark_subscription_def filter_update_where_other)

text \<open>
  C5. The same verification result delivered twice for a transaction id, the updates of
  the first delivery having taken effect. The second delivery leaves users (so every
  balance) and withdrawals as they are, leaves every donation and subscription whose id
  is another one exactly as it is, and changes no column of the specification's data
  model in any row: donations and subscriptions after it equal those before it up to the
  \<open>updated_at\<close> stamp. When its own updates take effect the store is the one a single
  delivery at the second instant gives (the matched rows carry the second stamp); when
  the store rejects them the store is exactly the one after the first delivery. This
  holds for a completed and for a failed result alike; no balance is credited at all.
\<close>

theorem webhook_second_delivery:
  assumes "webhook_verification env1 = Some v" and "webhook_verification env2 = Some v"
    and "webhook_donation_update_ok env1" and "webhook_subscription_update_ok env1"
  shows "users (snd (webhook env2 (Some p) (snd (webhook env1 (Some p) s))))
           = users (snd (webhook env1 (Some p) s)) \<and>
         withdrawals (snd (webhook env2 (Some p) (snd (webhook env1 (Some p) s))))
           = withdrawals (snd (webhook env1 (Some p) s)) \<and>
         map forget_donation_stamp
             (donations (snd (webhook env2 (Some p) (snd (webhook env1 (Some p) s)))))
           = map forget_donation_stamp (donations (snd (webhook env1 (Some p) s))) \<and>
         map forget_subscription_stamp
             (subscriptions (snd (webhook env2 (Some p) (snd (webhook env1 (Some p) s)))))
           = map forget_subscription_stamp (subscriptions (snd (webhook env1 (Some p) s))) \<and>
         filter (\<lambda>d. txn_id d \<noteq> transaction_id p)
             (donations (snd (webhook env2 (Some p) (snd (webhook env1 (Some p) s)))))
           = filter (\<lambda>d. txn_id d \<noteq> transaction_id p)
               (donations (snd (webhook env1 (Some p) s))) \<and>
         filter (\<lambda>r. last_payment_txn_id r \<noteq> transaction_id p)
             (subscriptions (snd (webhook env2 (Some p) (snd (webhook env1 (Some p) s)))))
           = filter (\<lambda>r. last_payment_txn_id r \<noteq> transaction_id p)
               (subscriptions (snd (webhook env1 (Some p) s))) \<and>
         (webhook_donation_update_ok env2 \<and> webhook_subscription_update_ok env2 \<longrightarrow>
            snd (webhook env2 (Some p) (snd (webhook env1 (Some p) s)))
              = snd (webhook env2 (Some p) s)) \<and>
         (\<not> webhook_donation_update_ok env2 \<and> \<not> webhook_subscription_update_ok env2 \<longrightarrow>
            snd (webhook env2 (Some p) (snd (webhook env1 (Some p) s)))
              = snd (webhook env1 (Some p) s))"
proof -
  have not_both: "\<not> (startsWith (transaction_id p) ''DON_'' \<and> startsWith (transaction_id p) ''SUB_'')"
    using startsWith_SUB_not_DON by blast
  show ?thesis
    apply (insert assms not_both)
    apply (intro conjI impI)
           apply (auto simp add: webhook_def Let_def mark_donation_twice mark_subscription_twice
        mark_donation_others mark_subscription_others)[6]
     apply (auto simp add: webhook_def Let_def mark_donation_absorb mark_subscription_absorb)
    done
qed

text \<open>
  One pending donation of 50, the completed result delivered at two instants a minute
  apart: the store after both deliveries is the store a single delivery at the second
  instant gives, with the donation completed, stamped with the second instant, and the
  balance still 75.
\<close>

theorem webhook_second_delivery_witness:
  "snd (webhook (example_webhook_env ''completed'' 1700000120000)
         (Some (example_payload ''DON_creator-_1700000000000''))
         (snd (webhook (example_webhook_env ''completed'' 1700000060000)
                (Some (example_payload ''DON_creator-_1700000000000''))
                (example_store 75 20000 True))))
     = snd (webhook (example_webhook_env ''completed'' 1700000120000)
             (Some (example_payload ''DON_creator-_1700000000000''))
             (example_store 75 20000 True)) \<and>
   snd (webhook (example_webhook_env ''completed'' 1700000120000)
         (Some (example_payload ''DON_creator-_1700000000000''))
         (example_store 75 20000 True))
     = (example_store 75 20000 True)
         \<lparr>donations := [example_donation\<lparr>payment_status := ''completed'',
                           donation_updated_at := Some 1700000120000\<rparr>]\<rparr> \<and>
   map forget_donation_stamp
       (donations (snd (webhook (example_webhook_env ''completed'' 1700000120000)
          (Some (example_payload ''DON_creator-_1700000000000''))
          (snd (webhook (example_webhook_env ''completed'' 1700000060000)
                 (Some (example_payload ''DON_creator-_1700000000000''))
                 (example_store 75 20000 True))))))
     = map forget_donation_stamp
         (donations (snd (webhook (example_webhook_env ''completed'' 1700000060000)
            (Some (example_payload ''DON_creator-_1700000000000''))
            (example_store 75 20000 True)))) \<and>
   users (snd (webhook (example_webhook_env ''completed'' 1700000120000)
         (Some (example_payload ''DON_creator-_1700000000000''))
         (snd (webhook (example_webhook_env ''completed'' 1700000060000)
                (Some (example_payload ''DON_creator-_1700000000000''))
                (example_store 75 20000 True)))))
     = [example_user 75]"
  using webhook_second_delivery
    [where ?env1.0 = "example_webhook_env ''completed'' 1700000060000"
       and ?env2.0 = "example_webhook_env ''completed'' 1700000120000"
       and v = "\<lparr>verification_status = True, verification_payment_status = ''completed''\<rparr>"
       and p = "example_payload ''DON_creator-_1700000000000''"
       and s = "example_store 75 20000 True"]
  by (simp add: webhook_def example_webhook_env_def example_payload_def example_store_def
      example_donation_def example_user_def mark_donation_def update_where_def
      startsWith_def Let_def)

text \<open>
  C6. Dispatch is by prefix alone: a delivery whose transaction id starts with \<open>SUB_\<close>
  leaves the donations table as it was, and one whose id starts with \<open>DON_\<close> leaves the
  subscriptions table as it was, whatever the payload's other fields, the verification
  result and the outcome of the updates.
\<close>

theorem webhook_prefix_isolation:
  "(startsWith (transaction_id p) ''SUB_'' \<longrightarrow>
      donations (snd (webhook env (Some p) s)) = donations s) \<and>
   (startsWith (transaction_id p) ''DON_'' \<longrightarrow>
      subscriptions (snd (webhook env (Some p) s)) = subscriptions s)"
  using startsWith_SUB_not_DON [of "transaction_id p"]
  by (auto simp add: webhook_def Let_def split: option.splits)

theorem webhook_prefix_isolation_witness:
  "startsWith ''SUB_creator-_1690000000000'' ''SUB_'' \<and>
   donations (snd (webhook (example_webhook_env ''completed'' 1700000060000)
       (Some (example_payload ''SUB_creator-_1690000000000'')) (example_store 75 20000 False)))
     = [example_donation] \<and>
   startsWith ''DON_creator-_1700000000000'' ''DON_'' \<and>
   subscriptions (snd (webhook (example_webhook_env ''failed'' 1700000060000)
       (Some (example_payload ''DON_creator-_1700000000000'')) (example_store 75 20000 False)))
     = [example_subscription 20000 False]"
  using webhook_prefix_isolation
    [where p = "example_payload ''SUB_creator-_1690000000000''"
       and env = "example_webhook_env ''completed'' 1700000060000"
       and s = "example_store 75 20000 False"]
    webhook_prefix_isolation
    [where p = "example_payload ''DON_creator-_1700000000000''"
       and env = "example_webhook_env ''failed'' 1700000060000"
       and s = "example_store 75 20000 False"]
  by (simp add: example_payload_def example_store_def startsWith_def)

section \<open>Administrator action\<close>

text \<open>
  C9. Approving or rejecting a withdrawal writes only \<open>status\<close> and \<open>processed_at\<close> of
  the withdrawal with that id: users (so every \<open>current_amount\<close>, also on a rejection),
  donations and subscriptions are unchanged, every withdrawal keeps all its other
  columns, and withdrawals with another id are untouched. Nothing is restored to the
  balance.
\<close>

theorem handleWithdrawal_frame:
  "users (snd (handleWithdrawal ok now wid act s)) = users s \<and>
   donations (snd (handleWithdrawal ok now wid act s)) = donations s \<and>
   subscriptions (snd (handleWithdrawal ok now wid act s)) = subscriptions s \<and>
   map forget_decision (withdrawals (snd (handleWithdrawal ok now wid act s)))
     = map forget_decision (withdrawals s) \<and>
   filter (\<lambda>w. withdrawal_id w \<noteq> wid) (withdrawals (snd (handleWithdrawal ok now wid act s)))
     = filter (\<lambda>w. withdrawal_id w \<noteq> wid) (withdrawals s)"
  by (simp add: handleWithdrawal_def filter_update_where_other)
     (simp add: forget_decision_def update_where_def)

theorem handleWithdrawal_frame_witness:
  "map withdrawal_status (withdrawals (snd (handleWithdrawal True 1700000060000 ''w1'' reject
       (example_store 35 20000 True)))) = [''rejected''] \<and>
   map processed_at (withdrawals (snd (handleWithdrawal True 1700000060000 ''w1'' reject
       (example_store 35 20000 True)))) = [Some 1700000060000] \<and>
   map withdrawal_amount (withdrawals (example_store 35 20000 True)) = [40] \<and>
   map current_amount (users (snd (handleWithdrawal True 1700000060000 ''w1'' reject
       (example_store 35 20000 True)))) = [35]"
  using handleWithdrawal_frame
    [where ok = True and now = 1700000060000 and wid = "''w1''" and act = reject
       and s = "example_store 35 20000 True"]
  by (simp add: handleWithdrawal_def example_store_def example_withdrawal_def
      example_user_def update_where_def)

section \<open>Withdrawal intake\<close>

lemma find_user_example: "find_user (example_store b d a) ''creator-1'' = Some (example_user b)"
  by (simp add: find_user_def example_store_def example_user_def single_def)

text \<open>
  What the handler does with a request that passes every check and whose insert
  succeeds: it answers 500 and leaves the store with the new pending row and every
  balance as it was.
\<close>

lemma request_withdrawal_after_insert:
  assumes "find_user s uid = Some u" and "role u = ''creator''"
    and "0 < request_withdrawal_amount r" and "request_withdrawal_amount r \<le> current_amount u"
    and "withdrawal_insert_ok env"
  shows "fst (request_withdrawal env (Authenticated uid) (Some r) s)
           = Rejected 500 ''Internal server error'' None \<and>
         users (snd (request_withdrawal env (Authenticated uid) (Some r) s)) = users s \<and>
         map withdrawal_id (withdrawals (snd (request_withdrawal env (Authenticated uid) (Some r) s)))
           = map withdrawal_id (withdrawals s) @ [withdrawal_new_id env]"
  using assms by (simp add: request_withdrawal_def Let_def)

lemma request_withdrawal_never_debits:
  "users (snd (request_withdrawal env who body s)) = users s"
  by (simp add: request_withdrawal_def Let_def split: caller.splits option.splits)

text \<open>
  C2. The claim: a request by a creator for exactly the current balance succeeds and
  leaves a balance of 0. The handler run for creator-1, whose balance is 75, on a request
  for 75 whose insert succeeds: the answer is status 500, the balance is still 75, and a
  pending withdrawal of 75 has been added.
\<close>

theorem withdrawal_of_full_balance_not_accepted:
  "fst (request_withdrawal example_withdrawal_env (Authenticated ''creator-1'')
         (Some (example_withdrawal_request 75)) (example_store 75 20000 True))
     = Rejected 500 ''Internal server error'' None \<and>
   map current_amount (users (snd (request_withdrawal example_withdrawal_env
         (Authenticated ''creator-1'') (Some (example_withdrawal_request 75))
         (example_store 75 20000 True))))
     = [75] \<and>
   map (\<lambda>w. (withdrawal_id w, withdrawal_amount w, withdrawal_status w))
       (withdrawals (snd (request_withdrawal example_withdrawal_env
         (Authenticated ''creator-1'') (Some (example_withdrawal_request 75))
         (example_store 75 20000 True))))
     = [(''w1'', 40, ''pending''), (''w2'', 75, ''pending'')]"
  by (simp add: request_withdrawal_def example_withdrawal_env_def example_withdrawal_request_def
      example_store_def example_user_def example_withdrawal_def find_user_def single_def Let_def)

text \<open>
  C3. The claim: when the insert succeeds and the decrement fails, the inserted row is
  deleted, so no Withdrawal row exists without its debit. The handler run for creator-1,
  whose balance is 75, on a request for 60 whose insert succeeds: the decrement is never
  made, the answer is status 500, and the store keeps the pending row w2 of 60 while the
  balance is still 75.
\<close>

theorem withdrawal_row_left_without_debit:
  "fst (request_withdrawal example_withdrawal_env (Authenticated ''creator-1'')
         (Some (example_withdrawal_request 60)) (example_store 75 20000 True))
     = Rejected 500 ''Internal server error'' None \<and>
   withdrawals (snd (request_withdrawal example_withdrawal_env (Authenticated ''creator-1'')
         (Some (example_withdrawal_request 60)) (example_store 75 20000 True)))
     = [example_withdrawal,
        \<lparr>withdrawal_id = ''w2'', withdrawal_user_id = ''creator-1'', withdrawal_amount = 60,
         withdrawal_method = ''bkash'', bank_name = ''bKash'', bank_account_name = ''A Creator'',
         bank_account_number = ''01700000000'', withdrawal_status = ''pending'',
         processed_at = None\<rparr>] \<and>
   users (snd (request_withdrawal example_withdrawal_env (Authenticated ''creator-1'')
         (Some (example_withdrawal_request 60)) (example_store 75 20000 True)))
     = [example_user 75]"
  by (simp add: request_withdrawal_def example_withdrawal_env_def example_withdrawal_request_def
      example_store_def example_user_def find_user_def single_def Let_def)

section \<open>Calendar arithmetic\<close>

lemma msPerDay_pos: "0 < msPerDay"
  by (simp add: msPerDay_def)

lemma Day_MakeDate: "Day (MakeDate d (TimeWithinDay t)) = d"
  using msPerDay_pos by (simp add: Day_def MakeDate_def TimeWithinDay_def)

lemma Day_add_months: "add_months t n = Some t' \<Longrightarrow> Day t' = date_add_months (Day t) n"
  by (auto simp add: add_months_def setMonth_def getMonth_def date_add_months_def Day_MakeDate
      TimeClip_def split: prod.splits if_split_asm)

lemma Day_date_to_timestamp: "Day (date_to_timestamp d) = d"
  using msPerDay_pos by (simp add: Day_def date_to_timestamp_def)

lemma before_today: "d < Day t \<Longrightarrow> date_to_timestamp d < t"
proof -
  assume "d < Day t"
  then have "d + 1 \<le> t div msPerDay" by (simp add: Day_def)
  then have "(d + 1) * msPerDay \<le> (t div msPerDay) * msPerDay"
    using msPerDay_pos by (simp add: mult_right_mono)
  also have "\<dots> \<le> t"
    using msPerDay_pos by (metis div_mult_mod_eq add_increasing2 order_refl pos_mod_sign)
  finally show ?thesis
    using msPerDay_pos by (simp add: date_to_timestamp_def algebra_simps)
qed

lemma not_before_now: "\<not> date_to_timestamp d < t \<Longrightarrow> Day t \<le> d"
  using before_today [where d = d and t = t] by (cases "d < Day t") auto

lemma later_than_now: "date_to_timestamp d > t \<Longrightarrow> Day t \<le> d"
  using not_before_now [where d = d and t = t] by simp

lemma not_later_than_now: "\<not> date_to_timestamp d > t \<Longrightarrow> d \<le> Day t"
  using Day_date_to_timestamp [of d] msPerDay_pos
  by (metis Day_def zdiv_mono1 linorder_not_less)

lemma iso_date_newPaidUntil:
  "newPaidUntil e today n = Some t \<Longrightarrow>
   iso_date t = date_add_months (max (paid_until e) (Day today)) n"
  using later_than_now [where d = "paid_until e" and t = today]
    not_later_than_now [where d = "paid_until e" and t = today]
    Day_add_months [where t = "date_to_timestamp (paid_until e)" and n = n and t' = t]
    Day_add_months [where t = today and n = n and t' = t]
  by (auto simp add: newPaidUntil_def iso_date_def Let_def Day_date_to_timestamp max_def
      split: if_split_asm)

text \<open>Values of the calendar functions at the dates used in the examples below.\<close>

lemma calendar_examples:
  "ymd 2023 1 29 = 19386" "ymd 2023 2 1 = 19389" "ymd 2023 3 1 = 19417"
  "ymd 2023 11 9 = 19670" "ymd 2023 11 13 = 19674" "ymd 2023 11 14 = 19675"
  "ymd 2023 11 24 = 19685" "ymd 2023 12 14 = 19705" "ymd 2023 12 24 = 19715"
  "ymd 2024 1 14 = 19736" "ymd 2024 2 14 = 19767"
  "date_to_timestamp 19386 = 1674950400000" "date_to_timestamp 19389 = 1675209600000"
  "date_to_timestamp 19417 = 1677628800000" "date_to_timestamp 19670 = 1699488000000"
  "date_to_timestamp 19674 = 1699833600000" "date_to_timestamp 19685 = 1700784000000"
  "date_to_timestamp 20000 = 1728000000000"
  "add_months 1674950400000 1 = Some 1677628800000"
  "add_months 1675209600000 1 = Some 1677628800000"
  "add_months 1700000000000 1 = Some 1702592000000"
  "add_months 1700000000000 2 = Some 1705270400000"
  "add_months 1700000000000 3 = Some 1707948800000"
  "add_months 1700784000000 1 = Some 1703376000000"
  "add_months 1728000000000 1 = Some 1730678400000" "iso_date 1730678400000 = 20031"
  "iso_date 1677628800000 = 19417" "iso_date 1702592000000 = 19705"
  "iso_date 1703376000000 = 19715" "iso_date 1674950400000 = 19386"
  "iso_date 1700000000000 = 19675" "iso_date 1705270400000 = 19736"
  "iso_date 1707948800000 = 19767"
  "Day 1700000000000 = 19675" "Day 1674950400000 = 19386"
  "date_add_months 19685 1 = 19715" "date_add_months 19675 1 = 19705"
  "date_add_months 19675 2 = 19736" "date_add_months 19675 3 = 19767"
  "date_add_months 19389 1 = 19417" "date_add_months 19386 1 = 19417"
  by code_simp+

lemmas example_defs = example_store_def example_store_unsubscribed_def example_user_def
  example_subscription_def example_donation_def example_withdrawal_def
  example_subscription_env_def example_checkout_def example_donation_env_def
  example_donation_request_def

section \<open>Subscription intake\<close>

lemmas subscription_defs = create_subscription_gateway_def create_subscription_simulated_def
  upsert_subscription_def find_user_def find_subscription_def single_def update_where_def
  mirror_subscription_def payment_id_or_def requested_months_def newPaidUntil_def
  expected_paid_until_def accepted_def

lemma filter_update_where_commute:
  "(\<And>r. q (f r) = q r) \<Longrightarrow> filter q (update_where p f rows) = update_where p f (filter q rows)"
  by (induction rows) (auto simp: update_where_def)

lemma upsert_users:
  "upsert_subscription env uid n txn act pid st s = Written row s1 \<Longrightarrow> users s1 = users s"
  by (auto simp add: upsert_subscription_def Let_def split: option.splits if_split_asm)

lemma upsert_existing:
  assumes ex: "filter (\<lambda>r. subscription_user_id r = uid) (subscriptions s) = [e]"
    and up: "upsert_subscription env uid n txn act pid st s = Written row s1"
  shows "find_subscription s1 uid = Some row \<and> is_active row = act \<and> last_payment_txn_id row = txn \<and>
         paid_until row = date_add_months (max (paid_until e) (Day (subscription_today env))) n"
proof -
  have fs: "find_subscription s uid = Some e"
    using ex by (simp add: find_subscription_def single_def)
  from up fs obtain extended where
    ext: "newPaidUntil e (subscription_today env) n = Some extended"
    by (auto simp add: upsert_subscription_def Let_def split: option.splits)
  let ?f = "\<lambda>r. r\<lparr>paid_until := iso_date extended,
                     is_active := act, last_payment_txn_id := txn,
                     subscription_payment_id := pid,
                     subscription_updated_at := Some (subscription_write_time env)\<rparr>"
  let ?p = "\<lambda>r. subscription_id r = subscription_id e"
  let ?rows = "update_where ?p ?f (subscriptions s)"
  from up fs ext have row: "single (filter ?p ?rows) = Some row"
    and s1: "s1 = s\<lparr>subscriptions := ?rows\<rparr>"
    by (auto simp add: upsert_subscription_def Let_def split: if_split_asm option.splits)
  have "filter (\<lambda>r. subscription_user_id r = uid) ?rows
          = update_where ?p ?f (filter (\<lambda>r. subscription_user_id r = uid) (subscriptions s))"
    by (rule filter_update_where_commute) simp
  then have "filter (\<lambda>r. subscription_user_id r = uid) ?rows = update_where ?p ?f [e]"
    by (simp only: ex)
  then have user_rows: "filter (\<lambda>r. subscription_user_id r = uid) ?rows = [?f e]"
    by (simp add: update_where_def)
  have "e \<in> set (filter (\<lambda>r. subscription_user_id r = uid) (subscriptions s))"
    by (simp only: ex) simp
  then have "e \<in> set (subscriptions s)"
    by simp
  then have "?f e \<in> set (filter ?p ?rows)"
    by (auto simp add: update_where_def)
  with row have "row = ?f e"
    by (simp add: single_Some_iff)
  with user_rows s1 iso_date_newPaidUntil [OF ext] show ?thesis
    by (simp add: find_subscription_def single_def)
qed

lemma upsert_fresh:
  assumes ex: "filter (\<lambda>r. subscription_user_id r = uid) (subscriptions s) = []"
    and up: "upsert_subscription env uid n txn act pid st s = Written row s1"
  shows "find_subscription s1 uid = Some row \<and> is_active row = act \<and> last_payment_txn_id row = txn \<and>
         paid_until row = date_add_months (Day (subscription_today env)) n"
proof -
  have fs: "find_subscription s uid = None"
    using ex by (simp add: find_subscription_def single_def)
  from up fs ex show ?thesis
    by (auto simp add: upsert_subscription_def Let_def find_subscription_def single_def
        iso_date_def Day_add_months split: if_split_asm option.splits)
qed

lemma upsert_expected:
  assumes one: "length (filter (\<lambda>r. subscription_user_id r = uid) (subscriptions s)) \<le> 1"
    and up: "upsert_subscription env uid n txn act pid st s = Written row s1"
  shows "find_subscription s1 uid = Some row \<and> is_active row = act \<and> last_payment_txn_id row = txn \<and>
         Some (paid_until row) = expected_paid_until s uid (Day (subscription_today env)) n"
proof (cases "filter (\<lambda>r. subscription_user_id r = uid) (subscriptions s)")
  case Nil
  with upsert_fresh [OF Nil up] show ?thesis
    by (simp add: expected_paid_until_def)
next
  case (Cons e rest)
  with one have ex: "filter (\<lambda>r. subscription_user_id r = uid) (subscriptions s) = [e]"
    by simp
  with upsert_existing [OF ex up] show ?thesis
    by (simp add: expected_paid_until_def)
qed

text \<open>The row the upsert returns is in the table, with the transaction id on it.\<close>

lemma upsert_row_stored:
  assumes up: "upsert_subscription env uid n txn act pid st s = Written row s1"
  shows "row \<in> set (subscriptions s1) \<and> last_payment_txn_id row = txn"
proof (cases "find_subscription s uid")
  case None
  with up show ?thesis
    by (auto simp add: upsert_subscription_def Let_def split: if_split_asm option.splits)
next
  case (Some e)
  with up obtain f where
    rows: "filter (\<lambda>r. subscription_id r = subscription_id e)
             (update_where (\<lambda>r. subscription_id r = subscription_id e) f (subscriptions s)) = [row]"
    and s1: "subscriptions s1
             = update_where (\<lambda>r. subscription_id r = subscription_id e) f (subscriptions s)"
    and f: "\<And>r. last_payment_txn_id (f r) = txn" "\<And>r. subscription_id (f r) = subscription_id r"
    by (auto simp add: upsert_subscription_def Let_def single_Some_iff
        split: if_split_asm option.splits)
  from rows have "row \<in> set (filter (\<lambda>r. subscription_id r = subscription_id e)
             (update_where (\<lambda>r. subscription_id r = subscription_id e) f (subscriptions s)))"
    by simp
  then have mem: "row \<in> set (update_where (\<lambda>r. subscription_id r = subscription_id e) f (subscriptions s))"
    and idr: "subscription_id row = subscription_id e"
    by simp_all
  from mem obtain x where "x \<in> set (subscriptions s)"
    and x: "row = (if subscription_id x = subscription_id e then f x else x)"
    by (auto simp add: update_where_def)
  with idr f have "row = f x"
    by (cases "subscription_id x = subscription_id e") auto
  with f mem s1 show ?thesis
    by simp
qed

text \<open>When the upsert writes: the conditions under which it does.\<close>

lemma upsert_writes_fresh:
  assumes "filter (\<lambda>r. subscription_user_id r = uid) (subscriptions s) = []"
    and "add_months (subscription_today env) n \<noteq> None"
    and "subscription_write_ok env"
  shows "\<exists>row s1. upsert_subscription env uid n txn act pid st s = Written row s1"
  using assms
  by (auto simp add: upsert_subscription_def Let_def find_subscription_def single_def)

lemma upsert_writes_existing:
  assumes ex: "filter (\<lambda>r. subscription_user_id r = uid) (subscriptions s) = [e]"
    and key: "filter (\<lambda>r. subscription_id r = subscription_id e) (subscriptions s) = [e]"
    and valid: "newPaidUntil e (subscription_today env) n \<noteq> None"
    and ok: "subscription_write_ok env"
  shows "\<exists>row s1. upsert_subscription env uid n txn act pid st s = Written row s1"
proof -
  have fs: "find_subscription s uid = Some e"
    using ex by (simp add: find_subscription_def single_def)
  from valid obtain extended where ext: "newPaidUntil e (subscription_today env) n = Some extended"
    by auto
  let ?f = "\<lambda>r. r\<lparr>paid_until := iso_date extended,
                     is_active := act, last_payment_txn_id := txn,
                     subscription_payment_id := pid,
                     subscription_updated_at := Some (subscription_write_time env)\<rparr>"
  have "filter (\<lambda>r. subscription_id r = subscription_id e)
          (update_where (\<lambda>r. subscription_id r = subscription_id e) ?f (subscriptions s))
        = map ?f (filter (\<lambda>r. subscription_id r = subscription_id e) (subscriptions s))"
    by (rule filter_update_where) simp
  then have "single (filter (\<lambda>r. subscription_id r = subscription_id e)
          (update_where (\<lambda>r. subscription_id r = subscription_id e) ?f (subscriptions s)))
        = Some (?f e)"
    by (simp add: key single_def)
  with fs ext ok show ?thesis
    by (simp add: upsert_subscription_def Let_def)
qed

lemma find_subscription_users [simp]:
  "find_subscription (s\<lparr>users := u\<rparr>) uid = find_subscription s uid"
  by (simp add: find_subscription_def)

lemma find_subscription_mirror [simp]:
  "find_subscription (mirror_subscription uid' pu now s) uid = find_subscription s uid"
  by (simp add: mirror_subscription_def)

lemma subscriptions_mirror [simp]:
  "subscriptions (mirror_subscription uid pu now s) = subscriptions s"
  by (simp add: mirror_subscription_def)

lemma find_user_mirror:
  "find_user (mirror_subscription uid pu now s) uid =
     map_option (\<lambda>u. u\<lparr>subscription_status := Some ''active'',
                        subscription_expires_at := Some pu,
                        user_updated_at := Some now\<rparr>) (find_user s uid)"
  by (simp add: find_user_def mirror_subscription_def filter_update_where single_map)

lemma gateway_accepted:
  assumes "accepted (fst (create_subscription_gateway env (Authenticated uid) (Some r) s))"
  shows "\<exists>c u row s1 t.
           subscription_checkout env = Some c \<and> checkout_status c \<and>
           find_user s uid = Some u \<and> role u = ''creator'' \<and>
           upsert_subscription env uid (requested_months r)
               (subscription_gateway_txn_id uid (subscription_txn_time env)) False
               (payment_id_or (checkout_payment_id c)
                  (''rupantorpay_'' @ subscription_gateway_txn_id uid (subscription_txn_time env)))
               ''pending'' s = Written row s1 \<and>
           add_months (subscription_today env) (requested_months r) = Some t \<and>
           snd (create_subscription_gateway env (Authenticated uid) (Some r) s)
             = (if subscription_user_update_ok env
                then mirror_subscription uid t (subscription_write_time env) s1
                else s1)"
  using assms
  by (auto simp add: create_subscription_gateway_def Let_def accepted_def
      split: option.splits if_split_asm upsert_outcome.splits split del: if_split)

lemma simulated_accepted:
  assumes "accepted (fst (create_subscription_simulated env (Authenticated uid) (Some r) s))"
  shows "\<exists>u row s1 t.
           find_user s uid = Some u \<and> role u = ''creator'' \<and>
           upsert_subscription env uid (requested_months r)
               (subscription_simulated_txn_id (subscription_txn_time env) (subscription_random env))
               True
               (''dummy_payment_'' @ subscription_simulated_txn_id (subscription_txn_time env)
                  (subscription_random env))
               ''active'' s = Written row s1 \<and>
           add_months (subscription_today env) (requested_months r) = Some t \<and>
           snd (create_subscription_simulated env (Authenticated uid) (Some r) s)
             = (if subscription_user_update_ok env
                then mirror_subscription uid t (subscription_write_time env) s1
                else s1)"
  using assms
  by (auto simp add: create_subscription_simulated_def Let_def accepted_def
      split: option.splits if_split_asm upsert_outcome.splits split del: if_split)

text \<open>Conversely, the conditions under which each variant accepts.\<close>

lemma gateway_accepts:
  assumes "find_user s uid = Some u" and "role u = ''creator''"
    and "subscription_checkout env = Some c" and "checkout_status c"
    and "upsert_subscription env uid (requested_months r)
               (subscription_gateway_txn_id uid (subscription_txn_time env)) False
               (payment_id_or (checkout_payment_id c)
                  (''rupantorpay_'' @ subscription_gateway_txn_id uid (subscription_txn_time env)))
               ''pending'' s = Written row s1"
    and "add_months (subscription_today env) (requested_months r) \<noteq> None"
  shows "accepted (fst (create_subscription_gateway env (Authenticated uid) (Some r) s))"
  using assms
  by (auto simp add: create_subscription_gateway_def Let_def accepted_def)

lemma simulated_accepts:
  assumes "find_user s uid = Some u" and "role u = ''creator''"
    and "upsert_subscription env uid (requested_months r)
               (subscription_simulated_txn_id (subscription_txn_time env) (subscription_random env))
               True
               (''dummy_payment_'' @ subscription_simulated_txn_id (subscription_txn_time env)
                  (subscription_random env))
               ''active'' s = Written row s1"
    and "add_months (subscription_today env) (requested_months r) \<noteq> None"
  shows "accepted (fst (create_subscription_simulated env (Authenticated uid) (Some r) s))"
  using assms
  by (auto simp add: create_subscription_simulated_def Let_def accepted_def)

lemma gateway_paid_until:
  assumes one: "length (filter (\<lambda>r. subscription_user_id r = uid) (subscriptions s)) \<le> 1"
    and acc: "accepted (fst (create_subscription_gateway env (Authenticated uid) (Some r) s))"
  shows "map_option paid_until
           (find_subscription
              (snd (create_subscription_gateway env (Authenticated uid) (Some r) s)) uid)
         = expected_paid_until s uid (Day (subscription_today env)) (requested_months r)"
proof -
  from gateway_accepted [OF acc] obtain c :: checkout_result and row s1 t where
    up: "upsert_subscription env uid (requested_months r)
               (subscription_gateway_txn_id uid (subscription_txn_time env)) False
               (payment_id_or (checkout_payment_id c)
                  (''rupantorpay_'' @ subscription_gateway_txn_id uid (subscription_txn_time env)))
               ''pending'' s = Written row s1"
    and s': "snd (create_subscription_gateway env (Authenticated uid) (Some r) s)
             = (if subscription_user_update_ok env
                then mirror_subscription uid t (subscription_write_time env) s1
                else s1)"
    by (elim exE conjE) (rule that)
  from upsert_expected [OF one up] s' show ?thesis
    by auto
qed

lemma simulated_paid_until:
  assumes one: "length (filter (\<lambda>r. subscription_user_id r = uid) (subscriptions s)) \<le> 1"
    and acc: "accepted (fst (create_subscription_simulated env (Authenticated uid) (Some r) s))"
  shows "map_option paid_until
           (find_subscription
              (snd (create_subscription_simulated env (Authenticated uid) (Some r) s)) uid)
         = expected_paid_until s uid (Day (subscription_today env)) (requested_months r)"
proof -
  from simulated_accepted [OF acc] obtain row s1 t where
    up: "upsert_subscription env uid (requested_months r)
               (subscription_simulated_txn_id (subscription_txn_time env) (subscription_random env))
               True
               (''dummy_payment_'' @ subscription_simulated_txn_id (subscription_txn_time env)
                  (subscription_random env))
               ''active'' s = Written row s1"
    and s': "snd (create_subscription_simulated env (Authenticated uid) (Some r) s)
             = (if subscription_user_update_ok env
                then mirror_subscription uid t (subscription_write_time env) s1
                else s1)"
    by (elim exE conjE) (rule that)
  from upsert_expected [OF one up] s' show ?thesis
    by auto
qed

lemma extension_core:
  assumes creator: "find_user s uid = Some u" "role u = ''creator''"
    and valid: "add_months (subscription_today env) (requested_months r) \<noteq> None"
    and one: "length (filter (\<lambda>r. subscription_user_id r = uid) (subscriptions s)) \<le> 1"
    and expected: "expected_paid_until s uid (Day (subscription_today env)) (requested_months r)
                     = Some x"
    and writes: "\<And>txn act pid st.
                   \<exists>row s1. upsert_subscription env uid (requested_months r) txn act pid st s
                              = Written row s1"
  shows "(subscription_checkout env = Some (c :: checkout_result) \<and> checkout_status c \<longrightarrow>
            accepted (fst (create_subscription_gateway env (Authenticated uid) (Some r) s)) \<and>
            map_option paid_until
                (find_subscription
                   (snd (create_subscription_gateway env (Authenticated uid) (Some r) s)) uid)
              = Some x) \<and>
         accepted (fst (create_subscription_simulated env (Authenticated uid) (Some r) s)) \<and>
         map_option paid_until
             (find_subscription
                (snd (create_subscription_simulated env (Authenticated uid) (Some r) s)) uid)
           = Some x"
proof (intro conjI impI)
  assume c: "subscription_checkout env = Some c \<and> checkout_status c"
  from writes obtain row s1 where
    "upsert_subscription env uid (requested_months r)
               (subscription_gateway_txn_id uid (subscription_txn_time env)) False
               (payment_id_or (checkout_payment_id c)
                  (''rupantorpay_'' @ subscription_gateway_txn_id uid (subscription_txn_time env)))
               ''pending'' s = Written row s1"
    by blast
  with creator c valid
  show g: "accepted (fst (create_subscription_gateway env (Authenticated uid) (Some r) s))"
    using gateway_accepts by blast
  show "map_option paid_until
          (find_subscription
             (snd (create_subscription_gateway env (Authenticated uid) (Some r) s)) uid)
        = Some x"
    using gateway_paid_until [OF one g] expected by simp
next
  from writes obtain row s1 where
    "upsert_subscription env uid (requested_months r)
               (subscription_simulated_txn_id (subscription_txn_time env) (subscription_random env))
               True
               (''dummy_payment_'' @ subscription_simulated_txn_id (subscription_txn_time env)
                  (subscription_random env))
               ''active'' s = Written row s1"
    by blast
  with creator valid
  show m: "accepted (fst (create_subscription_simulated env (Authenticated uid) (Some r) s))"
    using simulated_accepts by blast
  show "map_option paid_until
          (find_subscription
             (snd (create_subscription_simulated env (Authenticated uid) (Some r) s)) uid)
        = Some x"
    using simulated_paid_until [OF one m] expected by simp
qed

text \<open>
  C4. A subscription intake by a creator for \<open>d\<close> months (the requested number, 1 when
  the request names none), in the gateway variant once the checkout has succeeded and in
  the simulated variant, whose write succeeds and whose dates stay within the range of
  \<open>Date\<close>. If the creator has no Subscription row, the intake is accepted and the
  creator's row afterwards has \<open>paid_until\<close> equal to today plus \<open>d\<close> months. If the
  creator has one row (and its id is that of no other row), the intake is accepted and
  the row afterwards has \<open>paid_until\<close> equal to the later of its former \<open>paid_until\<close>
  and today, plus \<open>d\<close> months. Today is the UTC day of the handler's clock; adding months
  is JavaScript's \<open>setMonth\<close>.
\<close>

theorem subscription_extension:
  assumes creator: "find_user s uid = Some u" "role u = ''creator''"
    and months: "duration_months r = Some d \<or> duration_months r = None \<and> d = 1"
    and stored: "subscription_write_ok env"
    and valid: "add_months (subscription_today env) d \<noteq> None"
  shows "(filter (\<lambda>r. subscription_user_id r = uid) (subscriptions s) = [] \<longrightarrow>
            (subscription_checkout env = Some (c :: checkout_result) \<and> checkout_status c \<longrightarrow>
               accepted (fst (create_subscription_gateway env (Authenticated uid) (Some r) s)) \<and>
               map_option paid_until
                   (find_subscription
                      (snd (create_subscription_gateway env (Authenticated uid) (Some r) s)) uid)
                 = Some (date_add_months (Day (subscription_today env)) d)) \<and>
            accepted (fst (create_subscription_simulated env (Authenticated uid) (Some r) s)) \<and>
            map_option paid_until
                (find_subscription
                   (snd (create_subscription_simulated env (Authenticated uid) (Some r) s)) uid)
              = Some (date_add_months (Day (subscription_today env)) d)) \<and>
         (filter (\<lambda>r. subscription_user_id r = uid) (subscriptions s) = [e] \<and>
          filter (\<lambda>r. subscription_id r = subscription_id e) (subscriptions s) = [e] \<and>
          newPaidUntil e (subscription_today env) d \<noteq> None \<longrightarrow>
            (subscription_checkout env = Some c \<and> checkout_status c \<longrightarrow>
               accepted (fst (create_subscription_gateway env (Authenticated uid) (Some r) s)) \<and>
               map_option paid_until
                   (find_subscription
                      (snd (create_subscription_gateway env (Authenticated uid) (Some r) s)) uid)
                 = Some (date_add_months (max (paid_until e) (Day (subscription_today env))) d)) \<and>
            accepted (fst (create_subscription_simulated env (Authenticated uid) (Some r) s)) \<and>
            map_option paid_until
                (find_subscription
                   (snd (create_subscription_simulated env (Authenticated uid) (Some r) s)) uid)
              = Some (date_add_months (max (paid_until e) (Day (subscription_today env))) d))"
proof -
  have n: "requested_months r = d"
    using months by (auto simp add: requested_months_def)
  have valid': "add_months (subscription_today env) (requested_months r) \<noteq> None"
    using valid n by simp
  show ?thesis
  proof (rule conjI; rule impI)
    assume none: "filter (\<lambda>r. subscription_user_id r = uid) (subscriptions s) = []"
    then have one: "length (filter (\<lambda>r. subscription_user_id r = uid) (subscriptions s)) \<le> 1"
      by simp
    have expected: "expected_paid_until s uid (Day (subscription_today env)) (requested_months r)
                      = Some (date_add_months (Day (subscription_today env)) d)"
      using none n by (simp add: expected_paid_until_def)
    show "(subscription_checkout env = Some c \<and> checkout_status c \<longrightarrow>
               accepted (fst (create_subscription_gateway env (Authenticated uid) (Some r) s)) \<and>
               map_option paid_until
                   (find_subscription
                      (snd (create_subscription_gateway env (Authenticated uid) (Some r) s)) uid)
                 = Some (date_add_months (Day (subscription_today env)) d)) \<and>
            accepted (fst (create_subscription_simulated env (Authenticated uid) (Some r) s)) \<and>
            map_option paid_until
                (find_subscription
                   (snd (create_subscription_simulated env (Authenticated uid) (Some r) s)) uid)
              = Some (date_add_months (Day (subscription_today env)) d)"
      by (rule extension_core [OF creator valid' one expected])
         (rule upsert_writes_fresh [OF none valid' stored])
  next
    assume a: "filter (\<lambda>r. subscription_user_id r = uid) (subscriptions s) = [e] \<and>
          filter (\<lambda>r. subscription_id r = subscription_id e) (subscriptions s) = [e] \<and>
          newPaidUntil e (subscription_today env) d \<noteq> None"
    then have ex: "filter (\<lambda>r. subscription_user_id r = uid) (subscriptions s) = [e]"
      and key: "filter (\<lambda>r. subscription_id r = subscription_id e) (subscriptions s) = [e]"
      and ext: "newPaidUntil e (subscription_today env) (requested_months r) \<noteq> None"
      using n by simp_all
    from ex have one: "length (filter (\<lambda>r. subscription_user_id r = uid) (subscriptions s)) \<le> 1"
      by simp
    have expected: "expected_paid_until s uid (Day (subscription_today env)) (requested_months r)
                      = Some (date_add_months (max (paid_until e) (Day (subscription_today env))) d)"
      using ex n by (simp add: expected_paid_until_def)
    show "(subscription_checkout env = Some c \<and> checkout_status c \<longrightarrow>
               accepted (fst (create_subscription_gateway env (Authenticated uid) (Some r) s)) \<and>
               map_option paid_until
                   (find_subscription
                      (snd (create_subscription_gateway env (Authenticated uid) (Some r) s)) uid)
                 = Some (date_add_months (max (paid_until e) (Day (subscription_today env))) d)) \<and>
            accepted (fst (create_subscription_simulated env (Authenticated uid) (Some r) s)) \<and>
            map_option paid_until
                (find_subscription
                   (snd (create_subscription_simulated env (Authenticated uid) (Some r) s)) uid)
              = Some (date_add_months (max (paid_until e) (Day (subscription_today env))) d)"
      by (rule extension_core [OF creator valid' one expected])
         (rule upsert_writes_existing [OF ex key ext stored])
  qed
qed

text \<open>
  With the clock at 2023-11-14 22:13:20 UTC. A creator without a row who asks for three
  months is paid until 2024-02-14, in either variant. A row paid until 2023-11-24,
  renewed for the default of one month, is extended to 2023-12-24 (from its own date).
  A row that ran out on 2023-11-09, renewed for two months, is extended to 2024-01-14
  (from today).
\<close>

theorem subscription_extension_witness:
  "accepted (fst (create_subscription_gateway (example_subscription_env 1700000000000)
       (Authenticated ''creator-1'') (Some \<lparr>duration_months = Some 3\<rparr>)
       (example_store_unsubscribed 75))) \<and>
   map_option paid_until
       (find_subscription
          (snd (create_subscription_gateway (example_subscription_env 1700000000000)
                  (Authenticated ''creator-1'') (Some \<lparr>duration_months = Some 3\<rparr>)
                  (example_store_unsubscribed 75))) ''creator-1'')
     = Some (ymd 2024 2 14) \<and>
   accepted (fst (create_subscription_simulated (example_subscription_env 1700000000000)
       (Authenticated ''creator-1'') (Some \<lparr>duration_months = Some 3\<rparr>)
       (example_store_unsubscribed 75))) \<and>
   map_option paid_until
       (find_subscription
          (snd (create_subscription_simulated (example_subscription_env 1700000000000)
                  (Authenticated ''creator-1'') (Some \<lparr>duration_months = Some 3\<rparr>)
                  (example_store_unsubscribed 75))) ''creator-1'')
     = Some (ymd 2024 2 14) \<and>
   accepted (fst (create_subscription_gateway (example_subscription_env 1700000000000)
       (Authenticated ''creator-1'') (Some \<lparr>duration_months = None\<rparr>)
       (example_store 75 (ymd 2023 11 24) True))) \<and>
   map_option paid_until
       (find_subscription
          (snd (create_subscription_gateway (example_subscription_env 1700000000000)
                  (Authenticated ''creator-1'') (Some \<lparr>duration_months = None\<rparr>)
                  (example_store 75 (ymd 2023 11 24) True))) ''creator-1'')
     = Some (ymd 2023 12 24) \<and>
   accepted (fst (create_subscription_simulated (example_subscription_env 1700000000000)
       (Authenticated ''creator-1'') (Some \<lparr>duration_months = Some 2\<rparr>)
       (example_store 75 (ymd 2023 11 9) True))) \<and>
   map_option paid_until
       (find_subscription
          (snd (create_subscription_simulated (example_subscription_env 1700000000000)
                  (Authenticated ''creator-1'') (Some \<lparr>duration_months = Some 2\<rparr>)
                  (example_store 75 (ymd 2023 11 9) True))) ''creator-1'')
     = Some (ymd 2024 1 14)"
  using subscription_extension
    [where uid = "''creator-1''" and s = "example_store_unsubscribed 75"
       and u = "example_user 75" and c = example_checkout and d = 3
       and env = "example_subscription_env 1700000000000"
       and r = "\<lparr>duration_months = Some 3\<rparr>"]
    subscription_extension
    [where uid = "''creator-1''" and s = "example_store 75 (ymd 2023 11 24) True"
       and u = "example_user 75" and c = example_checkout and d = 1
       and e = "example_subscription (ymd 2023 11 24) True"
       and env = "example_subscription_env 1700000000000"
       and r = "\<lparr>duration_months = None\<rparr>"]
    subscription_extension
    [where uid = "''creator-1''" and s = "example_store 75 (ymd 2023 11 9) True"
       and u = "example_user 75" and c = example_checkout and d = 2
       and e = "example_subscription (ymd 2023 11 9) True"
       and env = "example_subscription_env 1700000000000"
       and r = "\<lparr>duration_months = Some 2\<rparr>"]
  by (simp add: example_defs subscription_defs calendar_examples Let_def)

text \<open>
  C10, as stated: on a renewal of an unexpired subscription the mirror's expiry differs
  from the row's extended \<open>paid_until\<close>. Not always: with the clock at midnight of
  2023-01-29, an active row paid until 2023-02-01 and one month requested, the row is
  extended to 2023-03-01 (1 February plus a month) and the mirror is set to midnight of
  2023-03-01 as well (29 January plus a month is 29 February, which carries to 1 March).
\<close>

theorem gateway_mirror_counterexample:
  "map is_active (subscriptions (example_store 75 (ymd 2023 2 1) True)) = [True] \<and>
   iso_date (date_to_timestamp (ymd 2023 1 29)) < ymd 2023 2 1 \<and>
   map paid_until (subscriptions (snd (create_subscription_gateway
       (example_subscription_env (date_to_timestamp (ymd 2023 1 29)))
       (Authenticated ''creator-1'') (Some \<lparr>duration_months = Some 1\<rparr>)
       (example_store 75 (ymd 2023 2 1) True))))
     = [ymd 2023 3 1] \<and>
   map subscription_expires_at (users (snd (create_subscription_gateway
       (example_subscription_env (date_to_timestamp (ymd 2023 1 29)))
       (Authenticated ''creator-1'') (Some \<lparr>duration_months = Some 1\<rparr>)
       (example_store 75 (ymd 2023 2 1) True))))
     = [Some (date_to_timestamp (ymd 2023 3 1))]"
  by (simp add: example_defs subscription_defs calendar_examples Let_def)

text \<open>
  C10, amended: after an accepted gateway-path subscription intake by a creator with at
  most one Subscription row, whose update of the User row took effect, and before any
  webhook: the Subscription row has \<open>is_active = false\<close> and its \<open>paid_until\<close> is the
  one of the extension rule (from the later of the existing date and today), while the
  User row has \<open>subscription_status = 'active'\<close> and \<open>subscription_expires_at\<close> equal to
  today plus the months, whatever the existing row says. So the mirror reports an active
  subscription before any payment is confirmed, and on a renewal the two expiries are
  computed from different starting days; they may differ and may coincide.
\<close>

theorem gateway_mirror_before_confirmation:
  assumes acc: "accepted (fst (create_subscription_gateway env (Authenticated uid) (Some r) s))"
    and upd: "subscription_user_update_ok env"
    and one: "length (filter (\<lambda>r. subscription_user_id r = uid) (subscriptions s)) \<le> 1"
  shows "map_option is_active
             (find_subscription
                (snd (create_subscription_gateway env (Authenticated uid) (Some r) s)) uid)
           = Some False \<and>
         map_option paid_until
             (find_subscription
                (snd (create_subscription_gateway env (Authenticated uid) (Some r) s)) uid)
           = expected_paid_until s uid (Day (subscription_today env)) (requested_months r) \<and>
         map_option subscription_status
             (find_user (snd (create_subscription_gateway env (Authenticated uid) (Some r) s)) uid)
           = Some (Some ''active'') \<and>
         map_option subscription_expires_at
             (find_user (snd (create_subscription_gateway env (Authenticated uid) (Some r) s)) uid)
           = Some (add_months (subscription_today env) (requested_months r)) \<and>
         add_months (subscription_today env) (requested_months r) \<noteq> None \<and>
         map_option iso_date (add_months (subscription_today env) (requested_months r))
           = Some (date_add_months (Day (subscription_today env)) (requested_months r))"
proof -
  from gateway_accepted [OF acc] obtain c :: checkout_result and u row s1 t where
    u: "find_user s uid = Some u"
    and up: "upsert_subscription env uid (requested_months r)
               (subscription_gateway_txn_id uid (subscription_txn_time env)) False
               (payment_id_or (checkout_payment_id c)
                  (''rupantorpay_'' @ subscription_gateway_txn_id uid (subscription_txn_time env)))
               ''pending'' s = Written row s1"
    and t: "add_months (subscription_today env) (requested_months r) = Some t"
    and s': "snd (create_subscription_gateway env (Authenticated uid) (Some r) s)
             = (if subscription_user_update_ok env
                then mirror_subscription uid t (subscription_write_time env) s1
                else s1)"
    by (elim exE conjE) (rule that)
  have "find_user s1 uid = Some u"
    using upsert_users [OF up] u by (simp add: find_user_def)
  with upsert_expected [OF one up] s' upd t Day_add_months [OF t] show ?thesis
    by (auto simp add: find_user_mirror iso_date_def)
qed

text \<open>
  With the clock at 2023-11-14 22:13:20 UTC, an active row paid until 2023-11-24 and the
  default of one month: the row becomes inactive and paid until 2023-12-24, the mirror
  says active until 2023-12-14 22:13:20.
\<close>

theorem gateway_mirror_before_confirmation_witness:
  "map_option is_active
       (find_subscription
          (snd (create_subscription_gateway (example_subscription_env 1700000000000)
                  (Authenticated ''creator-1'') (Some \<lparr>duration_months = None\<rparr>)
                  (example_store 75 (ymd 2023 11 24) True))) ''creator-1'')
     = Some False \<and>
   map_option paid_until
       (find_subscription
          (snd (create_subscription_gateway (example_subscription_env 1700000000000)
                  (Authenticated ''creator-1'') (Some \<lparr>duration_months = None\<rparr>)
                  (example_store 75 (ymd 2023 11 24) True))) ''creator-1'')
     = Some (ymd 2023 12 24) \<and>
   map_option subscription_status
       (find_user
          (snd (create_subscription_gateway (example_subscription_env 1700000000000)
                  (Authenticated ''creator-1'') (Some \<lparr>duration_months = None\<rparr>)
                  (example_store 75 (ymd 2023 11 24) True))) ''creator-1'')
     = Some (Some ''active'') \<and>
   map_option subscription_expires_at
       (find_user
          (snd (create_subscription_gateway (example_subscription_env 1700000000000)
                  (Authenticated ''creator-1'') (Some \<lparr>duration_months = None\<rparr>)
                  (example_store 75 (ymd 2023 11 24) True))) ''creator-1'')
     = Some (Some 1702592000000) \<and>
   iso_date 1702592000000 = ymd 2023 12 14"
  using gateway_mirror_before_confirmation
    [where uid = "''creator-1''" and s = "example_store 75 (ymd 2023 11 24) True"
       and env = "example_subscription_env 1700000000000"
       and r = "\<lparr>duration_months = None\<rparr>"]
  by (simp add: example_defs subscription_defs calendar_examples Let_def)

section \<open>Donation intake\<close>

lemmas donation_defs = process_donation_gateway_def process_donation_simulated_def
  invalid_donation_def find_creator_def find_subscription_def subscription_not_active_def
  single_def payment_id_or_def new_donation_def update_where_def
  accepted_def isActive_def

lemma isActive_iff: "isActive subscription now \<longleftrightarrow> \<not> subscription_not_active subscription now"
  by (cases subscription) (auto simp add: isActive_def subscription_not_active_def)

lemma expired_not_active:
  "paid_until sub < iso_date now \<Longrightarrow> subscription_not_active (Some sub) now"
  using before_today [where d = "paid_until sub" and t = now]
  by (simp add: subscription_not_active_def iso_date_def)

lemma active_not_expired:
  "\<not> subscription_not_active (Some sub) now \<Longrightarrow> is_active sub \<and> iso_date now \<le> paid_until sub"
  using not_before_now [where d = "paid_until sub" and t = now]
  by (auto simp add: subscription_not_active_def iso_date_def)

lemma gateway_guard:
  assumes "find_creator s (request_creator_id r) = Some c"
    and "subscription_not_active (find_subscription s (request_creator_id r)) (donation_now env)"
  shows "\<exists>msg. process_donation_gateway env (Some r) s = (Rejected 400 msg None, s)"
  using assms by (simp add: process_donation_gateway_def)

lemma simulated_guard:
  assumes "find_creator s (request_creator_id r) = Some c"
    and "subscription_not_active (find_subscription s (request_creator_id r)) (donation_now env)"
  shows "\<exists>msg. process_donation_simulated env (Some r) s = (Rejected 400 msg None, s)"
  using assms by (simp add: process_donation_simulated_def)

lemma gateway_accepted_donation:
  assumes "accepted (fst (process_donation_gateway env (Some r) s))"
  shows "\<not> invalid_donation r \<and>
         \<not> subscription_not_active (find_subscription s (request_creator_id r)) (donation_now env)"
  using assms
  by (auto simp add: process_donation_gateway_def accepted_def Let_def
      split: option.splits if_split_asm)

lemma simulated_accepted_donation:
  assumes "accepted (fst (process_donation_simulated env (Some r) s))"
  shows "\<not> invalid_donation r \<and>
         \<not> subscription_not_active (find_subscription s (request_creator_id r)) (donation_now env)"
  using assms
  by (auto simp add: process_donation_simulated_def accepted_def Let_def
      split: option.splits if_split_asm)

text \<open>
  C7. Donation intake, in the gateway and in the simulated variant, for a request naming
  an existing creator: whenever the creator's Subscription row is absent, or its
  \<open>is_active\<close> is false, or its \<open>paid_until\<close> is before today (the UTC day of the
  handler's clock), the request is answered with status 400 and the store is unchanged.
  (For any request at all, also one naming no creator, such a subscription means the
  request is not accepted and the store is unchanged.) An amount below 10 is answered
  with status 400 and the store unchanged, whatever the rest of the request. Conversely an accepted donation had a row with \<open>is_active\<close> and
  \<open>paid_until\<close> not before today, for which the access-time evaluator says active, and
  an amount of at least 10.
\<close>

theorem donation_requires_active_subscription:
  "(find_subscription s (request_creator_id r) = None \<or>
    (\<exists>sub. find_subscription s (request_creator_id r) = Some sub \<and>
           (\<not> is_active sub \<or> paid_until sub < iso_date (donation_now env))) \<longrightarrow>
      \<not> accepted (fst (process_donation_gateway env (Some r) s)) \<and>
      snd (process_donation_gateway env (Some r) s) = s \<and>
      \<not> accepted (fst (process_donation_simulated env (Some r) s)) \<and>
      snd (process_donation_simulated env (Some r) s) = s) \<and>
   (find_creator s (request_creator_id r) = Some c \<and>
    (find_subscription s (request_creator_id r) = None \<or>
     (\<exists>sub. find_subscription s (request_creator_id r) = Some sub \<and>
            (\<not> is_active sub \<or> paid_until sub < iso_date (donation_now env)))) \<longrightarrow>
      (\<exists>msg. process_donation_gateway env (Some r) s = (Rejected 400 msg None, s)) \<and>
      (\<exists>msg. process_donation_simulated env (Some r) s = (Rejected 400 msg None, s))) \<and>
   (request_amount r < 10 \<longrightarrow>
      process_donation_gateway env (Some r) s
        = (Rejected 400 ''Invalid donation data. Minimum amount is 10 BDT.'' None, s) \<and>
      process_donation_simulated env (Some r) s
        = (Rejected 400 ''Invalid donation data. Minimum amount is 10 BDT.'' None, s)) \<and>
   (accepted (fst (process_donation_gateway env (Some r) s)) \<or>
    accepted (fst (process_donation_simulated env (Some r) s)) \<longrightarrow>
      (\<exists>sub. find_subscription s (request_creator_id r) = Some sub \<and> is_active sub \<and>
             iso_date (donation_now env) \<le> paid_until sub) \<and>
      isActive (find_subscription s (request_creator_id r)) (donation_now env) \<and>
      10 \<le> request_amount r)"
proof (intro conjI impI)
  assume "find_subscription s (request_creator_id r) = None \<or>
    (\<exists>sub. find_subscription s (request_creator_id r) = Some sub \<and>
           (\<not> is_active sub \<or> paid_until sub < iso_date (donation_now env)))"
  then have na: "subscription_not_active (find_subscription s (request_creator_id r)) (donation_now env)"
    using expired_not_active by (auto simp add: subscription_not_active_def)
  then show "\<not> accepted (fst (process_donation_gateway env (Some r) s))"
    and "\<not> accepted (fst (process_donation_simulated env (Some r) s))"
    using gateway_accepted_donation simulated_accepted_donation by blast+
  from na show "snd (process_donation_gateway env (Some r) s) = s"
    by (simp add: process_donation_gateway_def split: option.splits)
  from na show "snd (process_donation_simulated env (Some r) s) = s"
    by (simp add: process_donation_simulated_def split: option.splits)
next
  assume a: "find_creator s (request_creator_id r) = Some c \<and>
    (find_subscription s (request_creator_id r) = None \<or>
     (\<exists>sub. find_subscription s (request_creator_id r) = Some sub \<and>
            (\<not> is_active sub \<or> paid_until sub < iso_date (donation_now env))))"
  then have "subscription_not_active (find_subscription s (request_creator_id r)) (donation_now env)"
    using expired_not_active by (auto simp add: subscription_not_active_def)
  with a show "\<exists>msg. process_donation_gateway env (Some r) s = (Rejected 400 msg None, s)"
    and "\<exists>msg. process_donation_simulated env (Some r) s = (Rejected 400 msg None, s)"
    using gateway_guard simulated_guard by blast+
next
  assume "request_amount r < 10"
  then show "process_donation_gateway env (Some r) s
        = (Rejected 400 ''Invalid donation data. Minimum amount is 10 BDT.'' None, s)"
    and "process_donation_simulated env (Some r) s
        = (Rejected 400 ''Invalid donation data. Minimum amount is 10 BDT.'' None, s)"
    by (simp_all add: process_donation_gateway_def process_donation_simulated_def
        invalid_donation_def)
next
  assume "accepted (fst (process_donation_gateway env (Some r) s)) \<or>
    accepted (fst (process_donation_simulated env (Some r) s))"
  then have ok: "\<not> invalid_donation r \<and>
         \<not> subscription_not_active (find_subscription s (request_creator_id r)) (donation_now env)"
    using gateway_accepted_donation simulated_accepted_donation by blast
  then obtain sub where sub: "find_subscription s (request_creator_id r) = Some sub"
    by (cases "find_subscription s (request_creator_id r)")
       (auto simp add: subscription_not_active_def)
  with ok active_not_expired [of sub "donation_now env"]
  show "\<exists>sub. find_subscription s (request_creator_id r) = Some sub \<and> is_active sub \<and>
             iso_date (donation_now env) \<le> paid_until sub"
    by simp
  from ok show "isActive (find_subscription s (request_creator_id r)) (donation_now env)"
    by (simp add: isActive_iff)
  from ok show "10 \<le> request_amount r"
    by (simp add: invalid_donation_def)
qed


text \<open>
  An expired subscription that is still flagged active (paid until 2023-11-13, clock at
  2023-11-14 22:13:20 UTC), an amount of 5, and an accepted donation of exactly 10 to a
  creator paid until 2024-10-04.
\<close>

theorem donation_requires_active_subscription_witness:
  "process_donation_gateway (example_donation_env 1700000000000)
       (Some (example_donation_request 50)) (example_store 75 (ymd 2023 11 13) True)
     = (Rejected 400 ''Creator's subscription is not active'' None,
        example_store 75 (ymd 2023 11 13) True) \<and>
   process_donation_simulated (example_donation_env 1700000000000)
       (Some (example_donation_request 5)) (example_store 75 20000 True)
     = (Rejected 400 ''Invalid donation data. Minimum amount is 10 BDT.'' None,
        example_store 75 20000 True) \<and>
   accepted (fst (process_donation_gateway (example_donation_env 1700000000000)
       (Some (example_donation_request 10)) (example_store 75 20000 True))) \<and>
   isActive (find_subscription (example_store 75 20000 True) ''creator-1'') 1700000000000"
  using donation_requires_active_subscription
    [where s = "example_store 75 (ymd 2023 11 13) True" and r = "example_donation_request 50"
       and c = "example_user 75" and env = "example_donation_env 1700000000000"]
    donation_requires_active_subscription
    [where s = "example_store 75 20000 True" and r = "example_donation_request 5"
       and c = "example_user 75" and env = "example_donation_env 1700000000000"]
    donation_requires_active_subscription
    [where s = "example_store 75 20000 True" and r = "example_donation_request 10"
       and c = "example_user 75" and env = "example_donation_env 1700000000000"]
  by (simp add: example_defs donation_defs calendar_examples Let_def)

section \<open>Transaction ids\<close>

lemma webhook_unrouted:
  "\<not> startsWith (transaction_id p) ''DON_'' \<Longrightarrow> \<not> startsWith (transaction_id p) ''SUB_'' \<Longrightarrow>
   snd (webhook env (Some p) s) = s"
  by (simp add: webhook_def Let_def split: option.splits)

lemma txn_id_examples:
  "donation_gateway_txn_id ''creator-1'' 1700000000000 = ''DON_creator-_1700000000000''"
  "subscription_gateway_txn_id ''creator-1'' 1700000000000 = ''SUB_creator-_1700000000000''"
  "donation_simulated_txn_id 1700000000000 ''0.k3j9x2abc'' = ''TXN_1700000000000_K3J9X2''"
  "subscription_simulated_txn_id 1700000000000 ''0.k3j9x2abc'' = ''SUB_1700000000000_K3J9X2''"
  by (simp_all add: donation_gateway_txn_id_def subscription_gateway_txn_id_def
      donation_simulated_txn_id_def subscription_simulated_txn_id_def substring_0_8_def
      random_suffix_def toUpperCase_char_def decimal.simps digit_char_def)

lemma gateway_donation_accepted:
  assumes "fst (process_donation_gateway denv dbody s) = Accepted p"
  shows "\<exists>r row. dbody = Some r \<and>
           result_txn_id p = donation_gateway_txn_id (request_creator_id r) (donation_txn_time denv) \<and>
           donations (snd (process_donation_gateway denv dbody s)) = donations s @ [row] \<and>
           txn_id row = result_txn_id p \<and> payment_status row = ''pending''"
  using assms
  by (auto simp add: process_donation_gateway_def Let_def new_donation_def
      split: option.splits if_split_asm)

lemma simulated_donation_inserted:
  assumes "donations (snd (process_donation_simulated denv dbody s)) \<noteq> donations s"
  shows "\<exists>row. donations (snd (process_donation_simulated denv dbody s)) = donations s @ [row] \<and>
           txn_id row = donation_simulated_txn_id (donation_txn_time denv) (donation_random denv) \<and>
           payment_status row = ''completed''"
  using assms
  by (auto simp add: process_donation_simulated_def Let_def new_donation_def
      split: option.splits if_split_asm)

lemma gateway_subscription_stored:
  assumes "fst (create_subscription_gateway senv who sbody s) = Accepted q"
  shows "(\<exists>uid. who = Authenticated uid \<and>
            subscription_result_txn_id q
              = subscription_gateway_txn_id uid (subscription_txn_time senv)) \<and>
         (\<exists>row \<in> set (subscriptions (snd (create_subscription_gateway senv who sbody s))).
            subscription_id row = subscription_result_id q \<and>
            last_payment_txn_id row = subscription_result_txn_id q)"
  using assms upsert_row_stored
  by (auto simp add: create_subscription_gateway_def Let_def
      split: caller.splits option.splits if_split_asm upsert_outcome.splits)

lemma simulated_subscription_stored:
  assumes "fst (create_subscription_simulated senv who sbody s) = Accepted q"
  shows "subscription_result_txn_id q
           = subscription_simulated_txn_id (subscription_txn_time senv) (subscription_random senv) \<and>
         (\<exists>row \<in> set (subscriptions (snd (create_subscription_simulated senv who sbody s))).
            subscription_id row = subscription_result_id q \<and>
            last_payment_txn_id row = subscription_result_txn_id q)"
  using assms upsert_row_stored
  by (auto simp add: create_subscription_simulated_def Let_def
      split: caller.splits option.splits if_split_asm upsert_outcome.splits)

text \<open>
  C8, as stated: the simulated donation variant tags its id \<open>DON_\<close>. The simulated
  donation intake run on a valid donation of 50 to an active creator stores a second
  donation row, and the transaction id it generated for that row does not start with
  \<open>DON_\<close>.
\<close>

theorem simulated_donation_txn_id_counterexample:
  "map (\<lambda>d. (donation_id d, txn_id d))
       (donations (snd (process_donation_simulated (example_donation_env 1700000000000)
          (Some (example_donation_request 50)) (example_store 75 20000 True))))
     = [(''d1'', ''DON_creator-_1700000000000''), (''d2'', ''TXN_1700000000000_K3J9X2'')] \<and>
   \<not> startsWith ''TXN_1700000000000_K3J9X2'' ''DON_''"
  by (simp add: example_defs donation_defs calendar_examples txn_id_examples Let_def
      startsWith_def)

text \<open>
  C8, amended: every transaction id an intake handler generates is tagged by
  construction, and is the id stored on the row the handler writes. The gateway donation
  intake returns \<open>DON_\<close>, the first eight characters of the creator id, \<open>_\<close> and the
  timestamp, and stores it as \<open>txn_id\<close> of the pending donation it appends; the gateway
  subscription intake returns \<open>SUB_\<close>, the first eight characters of the user id, \<open>_\<close>
  and the timestamp; the simulated subscription intake returns \<open>SUB_\<close>, the timestamp,
  \<open>_\<close> and the random suffix; both store it as \<open>last_payment_txn_id\<close> of the row they
  return. Whenever the simulated donation intake stores a donation, its \<open>txn_id\<close> is
  \<open>TXN_\<close>, the timestamp, \<open>_\<close> and the random suffix, which starts with neither \<open>DON_\<close>
  nor \<open>SUB_\<close>; a webhook delivery carrying such an id leaves the store as it is.
\<close>

theorem txn_id_prefixes:
  "(fst (process_donation_gateway denv dbody s) = Accepted p \<longrightarrow>
      (\<exists>r. dbody = Some r \<and>
           result_txn_id p = donation_gateway_txn_id (request_creator_id r) (donation_txn_time denv)) \<and>
      startsWith (result_txn_id p) ''DON_'' \<and>
      (\<exists>row. donations (snd (process_donation_gateway denv dbody s)) = donations s @ [row] \<and>
           txn_id row = result_txn_id p \<and> payment_status row = ''pending'')) \<and>
   (fst (create_subscription_gateway senv who sbody s) = Accepted q \<longrightarrow>
      (\<exists>uid. who = Authenticated uid \<and>
           subscription_result_txn_id q
             = subscription_gateway_txn_id uid (subscription_txn_time senv)) \<and>
      startsWith (subscription_result_txn_id q) ''SUB_'' \<and>
      (\<exists>row \<in> set (subscriptions (snd (create_subscription_gateway senv who sbody s))).
           subscription_id row = subscription_result_id q \<and>
           last_payment_txn_id row = subscription_result_txn_id q)) \<and>
   (fst (create_subscription_simulated senv who sbody s) = Accepted q' \<longrightarrow>
      subscription_result_txn_id q'
        = subscription_simulated_txn_id (subscription_txn_time senv) (subscription_random senv) \<and>
      startsWith (subscription_result_txn_id q') ''SUB_'' \<and>
      (\<exists>row \<in> set (subscriptions (snd (create_subscription_simulated senv who sbody s))).
           subscription_id row = subscription_result_id q' \<and>
           last_payment_txn_id row = subscription_result_txn_id q')) \<and>
   (donations (snd (process_donation_simulated denv dbody s)) \<noteq> donations s \<longrightarrow>
      (\<exists>row. donations (snd (process_donation_simulated denv dbody s)) = donations s @ [row] \<and>
           txn_id row = donation_simulated_txn_id (donation_txn_time denv) (donation_random denv) \<and>
           payment_status row = ''completed'') \<and>
      startsWith (donation_simulated_txn_id (donation_txn_time denv) (donation_random denv)) ''TXN_'' \<and>
      \<not> startsWith (donation_simulated_txn_id (donation_txn_time denv) (donation_random denv)) ''DON_'' \<and>
      \<not> startsWith (donation_simulated_txn_id (donation_txn_time denv) (donation_random denv)) ''SUB_'' \<and>
      (transaction_id wp = donation_simulated_txn_id (donation_txn_time denv) (donation_random denv) \<longrightarrow>
         snd (webhook wenv (Some wp) s') = s'))"
proof (intro conjI impI)
  assume a: "fst (process_donation_gateway denv dbody s) = Accepted p"
  from gateway_donation_accepted [OF a]
  show b: "\<exists>r. dbody = Some r \<and>
           result_txn_id p = donation_gateway_txn_id (request_creator_id r) (donation_txn_time denv)"
    and "\<exists>row. donations (snd (process_donation_gateway denv dbody s)) = donations s @ [row] \<and>
           txn_id row = result_txn_id p \<and> payment_status row = ''pending''"
    by blast+
  from b show "startsWith (result_txn_id p) ''DON_''"
    by (auto simp add: donation_gateway_txn_id_def startsWith_def)
next
  assume a: "fst (create_subscription_gateway senv who sbody s) = Accepted q"
  from gateway_subscription_stored [OF a]
  show b: "\<exists>uid. who = Authenticated uid \<and>
           subscription_result_txn_id q
             = subscription_gateway_txn_id uid (subscription_txn_time senv)"
    and "\<exists>row \<in> set (subscriptions (snd (create_subscription_gateway senv who sbody s))).
           subscription_id row = subscription_result_id q \<and>
           last_payment_txn_id row = subscription_result_txn_id q"
    by blast+
  from b show "startsWith (subscription_result_txn_id q) ''SUB_''"
    by (auto simp add: subscription_gateway_txn_id_def startsWith_def)
next
  assume a: "fst (create_subscription_simulated senv who sbody s) = Accepted q'"
  from simulated_subscription_stored [OF a]
  show b: "subscription_result_txn_id q'
        = subscription_simulated_txn_id (subscription_txn_time senv) (subscription_random senv)"
    and "\<exists>row \<in> set (subscriptions (snd (create_subscription_simulated senv who sbody s))).
           subscription_id row = subscription_result_id q' \<and>
           last_payment_txn_id row = subscription_result_txn_id q'"
    by blast+
  from b show "startsWith (subscription_result_txn_id q') ''SUB_''"
    by (simp add: subscription_simulated_txn_id_def startsWith_def)
next
  assume a: "donations (snd (process_donation_simulated denv dbody s)) \<noteq> donations s"
  from simulated_donation_inserted [OF a]
  show "\<exists>row. donations (snd (process_donation_simulated denv dbody s)) = donations s @ [row] \<and>
           txn_id row = donation_simulated_txn_id (donation_txn_time denv) (donation_random denv) \<and>
           payment_status row = ''completed''" .
  show "startsWith (donation_simulated_txn_id (donation_txn_time denv) (donation_random denv)) ''TXN_''"
    and c: "\<not> startsWith (donation_simulated_txn_id (donation_txn_time denv) (donation_random denv)) ''DON_''"
    and d: "\<not> startsWith (donation_simulated_txn_id (donation_txn_time denv) (donation_random denv)) ''SUB_''"
    by (simp_all add: donation_simulated_txn_id_def startsWith_def)
  assume "transaction_id wp = donation_simulated_txn_id (donation_txn_time denv) (donation_random denv)"
  with c d show "snd (webhook wenv (Some wp) s') = s'"
    by (simp add: webhook_unrouted)
qed

theorem txn_id_prefixes_witness:
  "fst (process_donation_gateway (example_donation_env 1700000000000)
         (Some (example_donation_request 50)) (example_store 75 20000 True))
     = Accepted \<lparr>result_txn_id = ''DON_creator-_1700000000000'', result_donation_id = ''d2'',
          result_payment_url = Some ''https://payment.rupantorpay.com/checkout/pay_1''\<rparr> \<and>
   startsWith ''DON_creator-_1700000000000'' ''DON_'' \<and>
   fst (create_subscription_gateway (example_subscription_env 1700000000000)
         (Authenticated ''creator-1'') (Some \<lparr>duration_months = None\<rparr>)
         (example_store 75 20000 True))
     = Accepted \<lparr>subscription_result_txn_id = ''SUB_creator-_1700000000000'',
          subscription_result_id = ''s1'', subscription_result_amount = 100,
          subscription_result_payment_url = Some ''https://payment.rupantorpay.com/checkout/pay_1'',
          subscription_result_paid_until = None\<rparr> \<and>
   map last_payment_txn_id (subscriptions (snd (create_subscription_gateway
         (example_subscription_env 1700000000000)
         (Authenticated ''creator-1'') (Some \<lparr>duration_months = None\<rparr>)
         (example_store 75 20000 True))))
     = [''SUB_creator-_1700000000000''] \<and>
   startsWith ''SUB_creator-_1700000000000'' ''SUB_'' \<and>
   fst (create_subscription_simulated (example_subscription_env 1700000000000)
         (Authenticated ''creator-1'') (Some \<lparr>duration_months = None\<rparr>)
         (example_store 75 20000 True))
     = Accepted \<lparr>subscription_result_txn_id = ''SUB_1700000000000_K3J9X2'',
          subscription_result_id = ''s1'', subscription_result_amount = 100,
          subscription_result_payment_url = None,
          subscription_result_paid_until = Some (ymd 2023 12 14)\<rparr> \<and>
   startsWith ''SUB_1700000000000_K3J9X2'' ''SUB_'' \<and>
   map txn_id (donations (snd (process_donation_simulated (example_donation_env 1700000000000)
         (Some (example_donation_request 50)) (example_store 75 20000 True))))
     = [''DON_creator-_1700000000000'', ''TXN_1700000000000_K3J9X2''] \<and>
   startsWith ''TXN_1700000000000_K3J9X2'' ''TXN_'' \<and>
   snd (webhook (example_webhook_env ''completed'' 1700000060000)
          (Some (example_payload ''TXN_1700000000000_K3J9X2'')) (example_store 75 20000 True))
     = example_store 75 20000 True"
  using txn_id_prefixes
    [where denv = "example_donation_env 1700000000000"
       and dbody = "Some (example_donation_request 50)"
       and s = "example_store 75 20000 True"
       and senv = "example_subscription_env 1700000000000"
       and who = "Authenticated ''creator-1''"
       and sbody = "Some \<lparr>duration_months = None\<rparr>"
       and p = "\<lparr>result_txn_id = ''DON_creator-_1700000000000'', result_donation_id = ''d2'',
          result_payment_url = Some ''https://payment.rupantorpay.com/checkout/pay_1''\<rparr>"
       and q = "\<lparr>subscription_result_txn_id = ''SUB_creator-_1700000000000'',
          subscription_result_id = ''s1'', subscription_result_amount = 100,
          subscription_result_payment_url = Some ''https://payment.rupantorpay.com/checkout/pay_1'',
          subscription_result_paid_until = None\<rparr>"
       and q' = "\<lparr>subscription_result_txn_id = ''SUB_1700000000000_K3J9X2'',
          subscription_result_id = ''s1'', subscription_result_amount = 100,
          subscription_result_payment_url = None,
          subscription_result_paid_until = Some (ymd 2023 12 14)\<rparr>"
       and wp = "example_payload ''TXN_1700000000000_K3J9X2''"
       and wenv = "example_webhook_env ''completed'' 1700000060000"
       and s' = "example_store 75 20000 True"]
  by (simp add: example_defs donation_defs subscription_defs calendar_examples txn_id_examples
      example_payload_def Let_def)

end
